theory Spec2Isabelle
  imports Main "HOL-Library.AList"
begin

section \<open>Data model\<close>

text \<open>
  The pipeline orchestration subsystem of the news sentiment service: the scraper registry
  (\<^verbatim>\<open>scrapers/scraper_manager.py\<close>), the store (\<^verbatim>\<open>database.py\<close>), the two stages
  (\<^verbatim>\<open>pipeline.py\<close>), the extractor (\<^verbatim>\<open>analysis/sentiment_analyzer.py\<close>) and the job
  controller with its HTTP handlers and scheduler entry point (\<^verbatim>\<open>app.py\<close>).

  An exception is represented by its message, the text that \<^verbatim>\<open>str(e)\<close> gives. Counters are
  natural numbers: the source only ever starts them at zero and increments them.
\<close>

type_synonym url = string
type_synonym exn = string

text \<open>The dictionary a scraper returns for one article.\<close>

record article_data =
  ad_url :: url
  ad_title :: string
  ad_author :: string
  ad_publication_date :: string
  ad_raw_text :: string
  ad_cleaned_text :: "string option"

text \<open>
  A scraper module as the registry and the pipeline see it: three attributes, each of which
  may be missing (or of the wrong kind) on a candidate module. \<open>get_article_urls\<close> takes no
  argument, so its behaviour is its outcome; \<open>Inl\<close> is a raised exception. A content fetch
  yields \<open>None\<close> when the scraper returns \<^verbatim>\<open>None\<close>.
\<close>

record py_module =
  SOURCE_NAME :: "string option"
  get_article_urls :: "(exn + url list) option"
  scrape_article_content :: "(url \<Rightarrow> exn + article_data option) option"

datatype import_outcome = Imported py_module | ImportError exn | OtherError exn

text \<open>The scrapers directory: what \<^verbatim>\<open>os.listdir\<close> and \<^verbatim>\<open>importlib.import_module\<close> give.\<close>

record filesystem =
  listdir :: "exn + string list"
  import_module :: "string \<Rightarrow> import_outcome"

subsection \<open>Store\<close>

text \<open>
  The tables of \<^verbatim>\<open>create_database\<close>, each a list of rows in insertion order. Timestamps and
  the cost column (a float) are left out, as are the row ids of tables whose ids are never
  read. The repository has no DELETE statement, so the largest id ever used in a table is the
  largest one present.
\<close>

record link_row =
  l_id :: nat
  l_url :: url
  l_source_website :: string

record article_row =
  a_id :: nat
  a_link_id :: nat
  a_url :: url
  a_title :: string
  a_author :: string
  a_publication_date :: string
  a_raw_text :: string
  a_cleaned_text :: "string option"
  a_is_analyzed :: bool

record sentiment_row =
  s_article_id :: nat
  s_entity_name :: string
  s_entity_type :: string
  s_financial_sentiment :: string
  s_overall_sentiment :: string
  s_reasoning :: string

record usage_row =
  u_article_id :: nat
  u_provider :: string
  u_total_tokens :: nat
  u_prompt_tokens :: nat
  u_completion_tokens :: nat

datatype pyval = I nat | S string

record run_row =
  r_new_links_found :: pyval
  r_articles_scraped :: pyval
  r_entities_analyzed :: pyval
  r_status :: pyval

record database =
  links :: "link_row list"
  articles :: "article_row list"
  sentiments :: "sentiment_row list"
  usage_logs :: "usage_row list"
  pipeline_runs :: "run_row list"

subsection \<open>Job state and the world\<close>

text \<open>
  \<^verbatim>\<open>pipeline_status_tracker\<close>. The key \<^verbatim>\<open>total\<close> is the field \<open>total'\<close>. A
  \<^verbatim>\<open>threading.Event\<close> object is named by a number.
\<close>

record tracker =
  is_running :: bool
  status :: string
  progress :: nat
  total' :: nat
  current_task :: string
  stop_event :: "nat option"

datatype stage = Acquisition | Extraction

text \<open>
  Everything the process mutates: the store, the tracker, the registry's module-level cache.
  \<open>polls\<close> counts the calls of \<^verbatim>\<open>stop_event.is_set()\<close> and \<open>store_ops\<close> the store
  operations; they index the environment below. \<open>scans\<close> (directory scans), \<open>history\<close>
  (stage entries) and \<open>caught\<close> (the articles whose processing raised, with the exception,
  which the source prints) are ghost fields: the source has no variable for them, they
  record that something happened.
\<close>

record world =
  db :: database
  job :: tracker
  scraper_cache :: "(string \<times> py_module) list"
  scans :: nat
  polls :: nat
  store_ops :: nat
  history :: "stage list"
  caught :: "(nat \<times> exn) list"

text \<open>The process at start: empty tables, the tracker as initialised, nothing cached.\<close>

definition idle_tracker :: tracker where
  "idle_tracker =
     \<lparr>is_running = False, status = ''Idle'', progress = 0, total' = 0,
      current_task = ''N/A'', stop_event = None\<rparr>"

definition initial_world :: world where
  "initial_world =
     \<lparr>db = \<lparr>links = [], articles = [], sentiments = [], usage_logs = [], pipeline_runs = []\<rparr>,
      job = idle_tracker, scraper_cache = [], scans = 0, polls = 0, store_ops = 0,
      history = [], caught = []\<rparr>"

subsection \<open>Environment\<close>

record entity =
  entity_name :: string
  entity_type :: string
  financial_sentiment :: string
  overall_sentiment :: string
  reasoning :: string

record usage_stats =
  total_tokens :: nat
  prompt_tokens :: nat
  completion_tokens :: nat

datatype llm_outcome =
  LlmResponse "entity list" usage_stats | ValidationError exn | LlmError exn

text \<open>
  What the run does not control.
  \<^item> \<open>cancel_at\<close>: the stop event is set by another thread and never cleared, so all a run
    can observe of it is the number of the first poll that sees it set (\<open>None\<close>: never set).
  \<^item> \<open>store_fault\<close>: the store operation with this number raises an error other than a
    uniqueness violation (a locked or missing database file).
  \<^item> \<open>llm_invoke\<close>: what \<^verbatim>\<open>chain.invoke\<close> does on a text at a given attempt.
  \<^item> \<open>environ_openai\<close>, \<open>environ_groq\<close>: the API keys of the process environment.
  \<^item> \<open>scrapers_dir\<close>: the scrapers directory.
\<close>

record env =
  cancel_at :: "nat option"
  store_fault :: "nat \<Rightarrow> exn option"
  llm_invoke :: "string \<Rightarrow> nat \<Rightarrow> llm_outcome"
  environ_openai :: "string option"
  environ_groq :: "string option"
  scrapers_dir :: filesystem

section \<open>Scraper registry\<close>

definition endswith :: "string \<Rightarrow> string \<Rightarrow> bool" where
  "endswith s suf = (length suf \<le> length s \<and> drop (length s - length suf) s = suf)"

definition startswith :: "string \<Rightarrow> string \<Rightarrow> bool" where
  "startswith s pre = (take (length pre) s = pre)"

text \<open>The validation of a candidate module: a string name and the two functions.\<close>

definition is_valid_scraper :: "py_module \<Rightarrow> bool" where
  "is_valid_scraper m =
     (SOURCE_NAME m \<noteq> None \<and> get_article_urls m \<noteq> None \<and> scrape_article_content m \<noteq> None)"

text \<open>
  The loop of \<^verbatim>\<open>discover_scrapers\<close> over the directory listing. Only \<^verbatim>\<open>ImportError\<close> is
  caught; another exception of the import leaves the function. A Python dict keeps insertion
  order and an assignment to a present key keeps the key's place: \<open>AList.update\<close>.
\<close>

fun discover_loop ::
  "(string \<Rightarrow> import_outcome) \<Rightarrow> string list \<Rightarrow> (string \<times> py_module) list
    \<Rightarrow> exn + (string \<times> py_module) list" where
  "discover_loop imp [] discovered = Inr discovered"
| "discover_loop imp (filename # rest) discovered =
     (if endswith filename ''_scraper.py'' \<and> \<not> startswith filename ''__'' then
        (case imp (''scrapers.'' @ take (length filename - 3) filename) of
           Imported m \<Rightarrow>
             (if is_valid_scraper m then
                (case SOURCE_NAME m of
                   Some source_name \<Rightarrow>
                     discover_loop imp rest (AList.update source_name m discovered)
                 | None \<Rightarrow> discover_loop imp rest discovered)
              else discover_loop imp rest discovered)
         | ImportError e \<Rightarrow> discover_loop imp rest discovered
         | OtherError e \<Rightarrow> Inl e)
      else discover_loop imp rest discovered)"

text \<open>
  \<^verbatim>\<open>discover_scrapers\<close>: the test \<^verbatim>\<open>if _scraper_cache:\<close> is the truth value of a dict, false
  for the empty one.
\<close>

definition discover_scrapers ::
  "filesystem \<Rightarrow> world \<Rightarrow> (exn + (string \<times> py_module) list) \<times> world" where
  "discover_scrapers fs w =
     (if scraper_cache w \<noteq> [] then (Inr (scraper_cache w), w)
      else
        (let w1 = w\<lparr>scans := Suc (scans w)\<rparr> in
         case listdir fs of
           Inl e \<Rightarrow> (Inl e, w1)
         | Inr names \<Rightarrow>
             (case discover_loop (import_module fs) names [] of
                Inl e \<Rightarrow> (Inl e, w1)
              | Inr discovered \<Rightarrow> (Inr discovered, w1\<lparr>scraper_cache := discovered\<rparr>))))"

text \<open>The loop of \<^verbatim>\<open>get_scraper_modules\<close> over the requested names.\<close>

fun select_modules :: "(string \<times> py_module) list \<Rightarrow> string list \<Rightarrow> py_module list" where
  "select_modules all_scrapers [] = []"
| "select_modules all_scrapers (name # rest) =
     (case map_of all_scrapers name of
        Some m \<Rightarrow> m # select_modules all_scrapers rest
      | None \<Rightarrow> select_modules all_scrapers rest)"

definition get_scraper_modules ::
  "filesystem \<Rightarrow> string list option \<Rightarrow> world \<Rightarrow> (exn + py_module list) \<times> world" where
  "get_scraper_modules fs names w =
     (case discover_scrapers fs w of
        (Inl e, w1) \<Rightarrow> (Inl e, w1)
      | (Inr all_scrapers, w1) \<Rightarrow>
          (case names of
             None \<Rightarrow> (Inr (map snd all_scrapers), w1)
           | Some ns \<Rightarrow> (Inr (select_modules all_scrapers ns), w1)))"

section \<open>Store operations\<close>

text \<open>
  Every operation opens a connection and runs one statement. It first consults the
  environment: a fault is an exception that the operation does not catch. \<^verbatim>\<open>add_link\<close> and
  \<^verbatim>\<open>add_article\<close> catch the uniqueness violation of the \<^verbatim>\<open>UNIQUE\<close> url column and return
  \<^verbatim>\<open>None\<close>.
\<close>

definition store_call :: "env \<Rightarrow> world \<Rightarrow> exn option \<times> world" where
  "store_call E w = (store_fault E (store_ops w), w\<lparr>store_ops := Suc (store_ops w)\<rparr>)"

text \<open>\<^verbatim>\<open>INTEGER PRIMARY KEY AUTOINCREMENT\<close>: one more than the largest id used so far.\<close>

definition next_id :: "nat list \<Rightarrow> nat" where
  "next_id ids = Suc (fold max ids 0)"

definition add_link :: "env \<Rightarrow> url \<Rightarrow> string \<Rightarrow> world \<Rightarrow> (exn + nat option) \<times> world" where
  "add_link E u source w =
     (case store_call E w of
        (Some e, w1) \<Rightarrow> (Inl e, w1)
      | (None, w1) \<Rightarrow>
          (if u \<in> set (map l_url (links (db w1))) then (Inr None, w1)
           else
             (let lastrowid = next_id (map l_id (links (db w1)));
                  row = \<lparr>l_id = lastrowid, l_url = u, l_source_website = source\<rparr>
              in (Inr (Some lastrowid),
                  w1\<lparr>db := (db w1)\<lparr>links := links (db w1) @ [row]\<rparr>\<rparr>))))"

definition add_article ::
  "env \<Rightarrow> nat \<Rightarrow> article_data \<Rightarrow> world \<Rightarrow> (exn + nat option) \<times> world" where
  "add_article E link_id ad w =
     (case store_call E w of
        (Some e, w1) \<Rightarrow> (Inl e, w1)
      | (None, w1) \<Rightarrow>
          (if ad_url ad \<in> set (map a_url (articles (db w1))) then (Inr None, w1)
           else
             (let lastrowid = next_id (map a_id (articles (db w1)));
                  row = \<lparr>a_id = lastrowid, a_link_id = link_id, a_url = ad_url ad,
                         a_title = ad_title ad, a_author = ad_author ad,
                         a_publication_date = ad_publication_date ad,
                         a_raw_text = ad_raw_text ad, a_cleaned_text = ad_cleaned_text ad,
                         a_is_analyzed = False\<rparr>
              in (Inr (Some lastrowid),
                  w1\<lparr>db := (db w1)\<lparr>articles := articles (db w1) @ [row]\<rparr>\<rparr>))))"

definition add_sentiment :: "env \<Rightarrow> nat \<Rightarrow> entity \<Rightarrow> world \<Rightarrow> (exn + unit) \<times> world" where
  "add_sentiment E article_id ent w =
     (case store_call E w of
        (Some e, w1) \<Rightarrow> (Inl e, w1)
      | (None, w1) \<Rightarrow>
          (let row = \<lparr>s_article_id = article_id, s_entity_name = entity_name ent,
                      s_entity_type = entity_type ent,
                      s_financial_sentiment = financial_sentiment ent,
                      s_overall_sentiment = overall_sentiment ent,
                      s_reasoning = reasoning ent\<rparr>
           in (Inr (), w1\<lparr>db := (db w1)\<lparr>sentiments := sentiments (db w1) @ [row]\<rparr>\<rparr>)))"

definition add_usage_log ::
  "env \<Rightarrow> nat \<Rightarrow> string \<Rightarrow> usage_stats \<Rightarrow> world \<Rightarrow> (exn + unit) \<times> world" where
  "add_usage_log E article_id prov u w =
     (case store_call E w of
        (Some e, w1) \<Rightarrow> (Inl e, w1)
      | (None, w1) \<Rightarrow>
          (let row = \<lparr>u_article_id = article_id, u_provider = prov,
                      u_total_tokens = total_tokens u, u_prompt_tokens = prompt_tokens u,
                      u_completion_tokens = completion_tokens u\<rparr>
           in (Inr (), w1\<lparr>db := (db w1)\<lparr>usage_logs := usage_logs (db w1) @ [row]\<rparr>\<rparr>)))"

text \<open>A statistics dictionary, and \<^verbatim>\<open>stats.get(key, default)\<close>.\<close>

type_synonym stats = "string \<rightharpoonup> pyval"

definition dict_get :: "stats \<Rightarrow> string \<Rightarrow> pyval \<Rightarrow> pyval" where
  "dict_get d k dflt = (case d k of Some v \<Rightarrow> v | None \<Rightarrow> dflt)"

definition add_pipeline_run :: "env \<Rightarrow> stats \<Rightarrow> world \<Rightarrow> (exn + unit) \<times> world" where
  "add_pipeline_run E st w =
     (case store_call E w of
        (Some e, w1) \<Rightarrow> (Inl e, w1)
      | (None, w1) \<Rightarrow>
          (let row = \<lparr>r_new_links_found = dict_get st ''new_links_found'' (I 0),
                      r_articles_scraped = dict_get st ''articles_scraped'' (I 0),
                      r_entities_analyzed = dict_get st ''entities_analyzed'' (I 0),
                      r_status = dict_get st ''status'' (S ''Completed'')\<rparr>
           in (Inr (), w1\<lparr>db := (db w1)\<lparr>pipeline_runs := pipeline_runs (db w1) @ [row]\<rparr>\<rparr>)))"

text \<open>
  The left join of links with articles on the link id, kept where no article matched: the
  links no article refers to.
\<close>

definition unscraped_links :: "database \<Rightarrow> link_row list" where
  "unscraped_links d = filter (\<lambda>l. l_id l \<notin> set (map a_link_id (articles d))) (links d)"

definition get_unscraped_links :: "env \<Rightarrow> world \<Rightarrow> (exn + link_row list) \<times> world" where
  "get_unscraped_links E w =
     (case store_call E w of
        (Some e, w1) \<Rightarrow> (Inl e, w1)
      | (None, w1) \<Rightarrow> (Inr (unscraped_links (db w1)), w1))"

text \<open>
  The rows with \<^verbatim>\<open>is_analyzed = 0\<close> whose cleaned text is neither NULL nor \<^verbatim>\<open>"N/A"\<close>, as
  pairs of id and text.
\<close>

definition selectable :: "article_row \<Rightarrow> bool" where
  "selectable a =
     (\<not> a_is_analyzed a \<and> a_cleaned_text a \<noteq> None \<and> a_cleaned_text a \<noteq> Some ''N/A'')"

definition unanalyzed_articles :: "database \<Rightarrow> (nat \<times> string) list" where
  "unanalyzed_articles d =
     map (\<lambda>a. (a_id a, case a_cleaned_text a of Some t \<Rightarrow> t | None \<Rightarrow> []))
       (filter selectable (articles d))"

definition get_unanalyzed_articles ::
  "env \<Rightarrow> world \<Rightarrow> (exn + (nat \<times> string) list) \<times> world" where
  "get_unanalyzed_articles E w =
     (case store_call E w of
        (Some e, w1) \<Rightarrow> (Inl e, w1)
      | (None, w1) \<Rightarrow> (Inr (unanalyzed_articles (db w1)), w1))"

definition set_analyzed :: "nat \<Rightarrow> article_row \<Rightarrow> article_row" where
  "set_analyzed article_id a = (if a_id a = article_id then a\<lparr>a_is_analyzed := True\<rparr> else a)"

definition mark_article_as_analyzed :: "env \<Rightarrow> nat \<Rightarrow> world \<Rightarrow> (exn + unit) \<times> world" where
  "mark_article_as_analyzed E article_id w =
     (case store_call E w of
        (Some e, w1) \<Rightarrow> (Inl e, w1)
      | (None, w1) \<Rightarrow>
          (Inr (), w1\<lparr>db := (db w1)\<lparr>articles := map (set_analyzed article_id) (articles (db w1))\<rparr>\<rparr>))"

section \<open>Acquisition stage\<close>

text \<open>\<^verbatim>\<open>stop_event.is_set()\<close>: one more poll, answered by the environment.\<close>

definition is_set :: "env \<Rightarrow> world \<Rightarrow> bool \<times> world" where
  "is_set E w =
     ((case cancel_at E of None \<Rightarrow> False | Some t \<Rightarrow> t \<le> polls w),
      w\<lparr>polls := Suc (polls w)\<rparr>)"

definition set_status :: "string \<Rightarrow> world \<Rightarrow> world" where
  "set_status s w = w\<lparr>job := (job w)\<lparr>status := s\<rparr>\<rparr>"

definition set_progress :: "nat \<Rightarrow> world \<Rightarrow> world" where
  "set_progress n w = w\<lparr>job := (job w)\<lparr>progress := n\<rparr>\<rparr>"

definition set_current_task :: "string \<Rightarrow> world \<Rightarrow> world" where
  "set_current_task s w = w\<lparr>job := (job w)\<lparr>current_task := s\<rparr>\<rparr>"

definition enter_stage :: "stage \<Rightarrow> world \<Rightarrow> world" where
  "enter_stage st w = w\<lparr>history := history w @ [st]\<rparr>"

text \<open>\<^verbatim>\<open>getattr(scraper, 'SOURCE_NAME', default)\<close> and the calls of the two functions.\<close>

definition getattr_SOURCE_NAME :: "py_module \<Rightarrow> string \<Rightarrow> string" where
  "getattr_SOURCE_NAME m dflt = (case SOURCE_NAME m of Some n \<Rightarrow> n | None \<Rightarrow> dflt)"

definition call_get_article_urls :: "py_module \<Rightarrow> exn + url list" where
  "call_get_article_urls m =
     (case get_article_urls m of Some r \<Rightarrow> r | None \<Rightarrow> Inl ''AttributeError'')"

definition call_scrape_article_content :: "py_module \<Rightarrow> url \<Rightarrow> exn + article_data option" where
  "call_scrape_article_content m u =
     (case scrape_article_content m of Some f \<Rightarrow> f u | None \<Rightarrow> Inl ''AttributeError'')"

text \<open>The truth value of what \<^verbatim>\<open>add_link\<close> returned: a row id other than zero.\<close>

definition truthy_id :: "nat option \<Rightarrow> bool" where
  "truthy_id r = (case r of None \<Rightarrow> False | Some i \<Rightarrow> i \<noteq> 0)"

text \<open>
  \<^verbatim>\<open>for url in urls\<close>, inside the \<^verbatim>\<open>try\<close>: an exception of \<^verbatim>\<open>add_link\<close> ends the loop, the
  count reached so far stays.
\<close>

fun add_links_loop ::
  "env \<Rightarrow> string \<Rightarrow> url list \<Rightarrow> nat \<Rightarrow> world \<Rightarrow> (exn option \<times> nat) \<times> world" where
  "add_links_loop E source [] n w = ((None, n), w)"
| "add_links_loop E source (u # rest) n w =
     (case add_link E u source w of
        (Inl e, w1) \<Rightarrow> ((Some e, n), w1)
      | (Inr r, w1) \<Rightarrow> add_links_loop E source rest (if truthy_id r then Suc n else n) w1)"

datatype control = Go | Stop

text \<open>One iteration of the loop over the scrapers (step 1).\<close>

definition scrape_links_step ::
  "env \<Rightarrow> nat \<Rightarrow> py_module \<Rightarrow> nat \<Rightarrow> world \<Rightarrow> (control \<times> nat) \<times> world" where
  "scrape_links_step E i scraper n w =
     (case is_set E w of
        (True, w1) \<Rightarrow> ((Stop, n), set_status ''Stopping...'' w1)
      | (False, w1) \<Rightarrow>
          (let source_name = getattr_SOURCE_NAME scraper ''Unknown Scraper'';
               w2 = set_current_task (''Fetching links from '' @ source_name) w1
           in case call_get_article_urls scraper of
                Inl e \<Rightarrow> ((Go, n), set_progress (i + 1) w2)
              | Inr urls \<Rightarrow>
                  (if urls = [] then ((Go, n), w2)
                   else
                     (case add_links_loop E source_name urls n w2 of
                        ((r, n'), w3) \<Rightarrow> ((Go, n'), set_progress (i + 1) w3)))))"

fun scrape_links_loop ::
  "env \<Rightarrow> nat \<Rightarrow> py_module list \<Rightarrow> nat \<Rightarrow> world \<Rightarrow> (control \<times> nat) \<times> world" where
  "scrape_links_loop E i [] n w = ((Go, n), w)"
| "scrape_links_loop E i (scraper # rest) n w =
     (case scrape_links_step E i scraper n w of
        ((Stop, n'), w') \<Rightarrow> ((Stop, n'), w')
      | ((Go, n'), w') \<Rightarrow> scrape_links_loop E (i + 1) rest n' w')"

text \<open>The dict comprehension from source name to module: the last module of a name wins.\<close>

definition scraper_map :: "py_module list \<Rightarrow> (string \<times> py_module) list" where
  "scraper_map mods =
     fold (\<lambda>s m. AList.update (getattr_SOURCE_NAME s ''Unknown'') s m) mods []"

text \<open>
  One iteration of the loop over the unscraped links (step 2). The count goes up whenever
  the scraper returned data, whatever \<^verbatim>\<open>add_article\<close> returned.
\<close>

definition scrape_article_step ::
  "env \<Rightarrow> (string \<times> py_module) list \<Rightarrow> nat \<Rightarrow> link_row \<Rightarrow> nat \<Rightarrow> world
    \<Rightarrow> (control \<times> nat) \<times> world" where
  "scrape_article_step E smap i link cnt w =
     (case is_set E w of
        (True, w1) \<Rightarrow> ((Stop, cnt), set_status ''Stopping...'' w1)
      | (False, w1) \<Rightarrow>
          (case map_of smap (l_source_website link) of
             None \<Rightarrow> ((Go, cnt), set_progress (i + 1) w1)
           | Some scraper_to_use \<Rightarrow>
               (case call_scrape_article_content scraper_to_use (l_url link) of
                  Inl e \<Rightarrow> ((Go, cnt), set_progress (i + 1) w1)
                | Inr None \<Rightarrow> ((Go, cnt), set_progress (i + 1) w1)
                | Inr (Some ad) \<Rightarrow>
                    (case add_article E (l_id link) ad w1 of
                       (Inl e, w2) \<Rightarrow> ((Go, cnt), set_progress (i + 1) w2)
                     | (Inr r, w2) \<Rightarrow>
                         ((Go, cnt + 1),
                          set_progress (i + 1)
                            (set_current_task (''Scraped: '' @ ad_title ad) w2))))))"

fun scrape_articles_loop ::
  "env \<Rightarrow> (string \<times> py_module) list \<Rightarrow> nat \<Rightarrow> link_row list \<Rightarrow> nat \<Rightarrow> world
    \<Rightarrow> nat \<times> world" where
  "scrape_articles_loop E smap i [] cnt w = (cnt, w)"
| "scrape_articles_loop E smap i (link # rest) cnt w =
     (case scrape_article_step E smap i link cnt w of
        ((Stop, cnt'), w') \<Rightarrow> (cnt', w')
      | ((Go, cnt'), w') \<Rightarrow> scrape_articles_loop E smap (i + 1) rest cnt' w')"

definition scraping_stats :: "nat \<Rightarrow> nat \<Rightarrow> stats" where
  "scraping_stats n k = [''new_links_found'' \<mapsto> I n, ''articles_scraped'' \<mapsto> I k]"

definition run_scraping_pipeline ::
  "env \<Rightarrow> py_module list \<Rightarrow> world \<Rightarrow> (exn + stats) \<times> world" where
  "run_scraping_pipeline E scraper_modules w =
     (let w0 = enter_stage Acquisition w;
          w1 = w0\<lparr>job := (job w0)\<lparr>status := ''Scraping links'', progress := 0,
                                   total' := length scraper_modules,
                                   current_task := ''Fetching article lists from sources.''\<rparr>\<rparr>
      in case scrape_links_loop E 0 scraper_modules 0 w1 of
           ((Stop, new_links_found), w2) \<Rightarrow> (Inr (scraping_stats new_links_found 0), w2)
         | ((Go, new_links_found), w2) \<Rightarrow>
             (case is_set E w2 of
                (True, w3) \<Rightarrow> (Inr (scraping_stats new_links_found 0), w3)
              | (False, w3) \<Rightarrow>
                  (case get_unscraped_links E w3 of
                     (Inl e, w4) \<Rightarrow> (Inl e, w4)
                   | (Inr links_to_scrape, w4) \<Rightarrow>
                       (let w5 = w4\<lparr>job := (job w4)\<lparr>status := ''Scraping articles'',
                                                      progress := 0,
                                                      total' := length links_to_scrape\<rparr>\<rparr>
                        in if links_to_scrape = [] then
                             (Inr (scraping_stats new_links_found 0),
                              set_current_task ''No new articles to scrape.'' w5)
                           else
                             (case scrape_articles_loop E (scraper_map scraper_modules) 0
                                     links_to_scrape 0 w5 of
                                (articles_scraped_count, w6) \<Rightarrow>
                                  (Inr (scraping_stats new_links_found articles_scraped_count),
                                   w6))))))"

section \<open>Extractor\<close>

text \<open>The keyword arguments of \<^verbatim>\<open>SentimentAnalyzer\<close>, each absent or a string.\<close>

record llm_config =
  provider :: "string option"
  model_name :: "string option"
  openai_api_key :: "string option"
  groq_api_key :: "string option"

record analyzer =
  an_provider :: string
  an_model_name :: string

text \<open>Python's \<^verbatim>\<open>x or y\<close> on an optional string: \<^verbatim>\<open>None\<close> and the empty string are false.\<close>

definition falsy :: "string option \<Rightarrow> bool" where
  "falsy x = (x = None \<or> x = Some [])"

definition py_or :: "string option \<Rightarrow> string option \<Rightarrow> string option" where
  "py_or x y = (if falsy x then y else x)"

text \<open>
  The constructor with \<^verbatim>\<open>_initialize_chain\<close>: it raises \<^verbatim>\<open>ValueError\<close> for a missing key or an
  unsupported provider. The constructors of the client libraries are taken to succeed, so
  the chain of a constructed analyzer is always there.
\<close>

definition SentimentAnalyzer :: "env \<Rightarrow> llm_config \<Rightarrow> exn + analyzer" where
  "SentimentAnalyzer E cfg =
     (let prov = (case py_or (provider cfg) (Some ''openai'') of Some p \<Rightarrow> p | None \<Rightarrow> []);
          model = (if falsy (model_name cfg) then
                     (if prov = ''openai'' then ''gpt-4o-mini'' else ''llama3-8b-8192'')
                   else (case model_name cfg of Some m \<Rightarrow> m | None \<Rightarrow> []));
          okey = py_or (openai_api_key cfg) (environ_openai E);
          gkey = py_or (groq_api_key cfg) (environ_groq E)
      in if prov = ''openai'' then
           (if falsy okey then
              Inl (''OpenAI API key not found. Please provide it in the API call '' @
                   ''or set it in the .env file.'')
            else Inr \<lparr>an_provider = prov, an_model_name = model\<rparr>)
         else if prov = ''groq'' then
           (if falsy gkey then
              Inl (''Groq API key not found. Please provide it in the API call '' @
                   ''or set it in the .env file.'')
            else Inr \<lparr>an_provider = prov, an_model_name = model\<rparr>)
         else
           Inl (''Unsupported LLM provider: '' @ prov @
                ''. Please choose 'openai' or 'groq'.''))"

text \<open>
  \<^verbatim>\<open>analyze_text_for_sentiment\<close>: up to three attempts. A validation error is retried, any
  other exception gives the empty result at once; the method never raises. The usage
  dictionary is \<open>None\<close> when it is empty.
\<close>

definition MAX_RETRIES :: nat where
  "MAX_RETRIES = 3"

fun analyze_attempts ::
  "env \<Rightarrow> analyzer \<Rightarrow> string \<Rightarrow> nat list \<Rightarrow> entity list \<times> usage_stats option" where
  "analyze_attempts E an text [] = ([], None)"
| "analyze_attempts E an text (attempt # rest) =
     (if an_provider an = ''openai'' \<or> an_provider an = ''groq'' then
        (case llm_invoke E text attempt of
           LlmResponse entities usage \<Rightarrow> (entities, Some usage)
         | ValidationError e \<Rightarrow>
             (if attempt \<ge> MAX_RETRIES - 1 then ([], None)
              else analyze_attempts E an text rest)
         | LlmError e \<Rightarrow> ([], None))
      else analyze_attempts E an text rest)"

definition analyze_text_for_sentiment ::
  "env \<Rightarrow> analyzer \<Rightarrow> string \<Rightarrow> entity list \<times> usage_stats option" where
  "analyze_text_for_sentiment E an text = analyze_attempts E an text [0..<MAX_RETRIES]"

section \<open>Extraction stage\<close>

fun str_nat :: "nat \<Rightarrow> string" where
  "str_nat n =
     (if n < 10 then [''0123456789'' ! n]
      else str_nat (n div 10) @ [''0123456789'' ! (n mod 10)])"

declare str_nat.simps [simp del]

text \<open>
  \<^verbatim>\<open>for entity in entities_list\<close>: a store error ends the loop, the rows written and the count
  reached so far stay.
\<close>

fun add_sentiments_loop ::
  "env \<Rightarrow> nat \<Rightarrow> entity list \<Rightarrow> nat \<Rightarrow> world \<Rightarrow> (exn option \<times> nat) \<times> world" where
  "add_sentiments_loop E article_id [] cnt w = ((None, cnt), w)"
| "add_sentiments_loop E article_id (ent # rest) cnt w =
     (case add_sentiment E article_id ent w of
        (Inl e, w1) \<Rightarrow> ((Some e, cnt), w1)
      | (Inr u, w1) \<Rightarrow> add_sentiments_loop E article_id rest (cnt + 1) w1)"

text \<open>
  The body of the \<^verbatim>\<open>try\<close> for one article: the extractor call, the usage log, the sentiment
  rows, the flag. \<open>Some e\<close> is the exception that the \<^verbatim>\<open>except\<close> of the loop catches.
\<close>

definition analyze_article ::
  "env \<Rightarrow> analyzer \<Rightarrow> nat \<times> string \<Rightarrow> nat \<Rightarrow> world \<Rightarrow> (exn option \<times> nat) \<times> world" where
  "analyze_article E an article cnt w =
     (case analyze_text_for_sentiment E an (snd article) of
        (entities_list, usage) \<Rightarrow>
          (case (case usage of
                   None \<Rightarrow> (Inr (), w)
                 | Some u \<Rightarrow> add_usage_log E (fst article) (an_provider an) u w) of
             (Inl e, w1) \<Rightarrow> ((Some e, cnt), w1)
           | (Inr u, w1) \<Rightarrow>
               (case add_sentiments_loop E (fst article) entities_list cnt w1 of
                  ((Some e, cnt'), w2) \<Rightarrow> ((Some e, cnt'), w2)
                | ((None, cnt'), w2) \<Rightarrow>
                    (case mark_article_as_analyzed E (fst article) w2 of
                       (Inl e, w3) \<Rightarrow> ((Some e, cnt'), w3)
                     | (Inr u', w3) \<Rightarrow> ((None, cnt'), w3)))))"

definition log_caught :: "nat \<Rightarrow> exn option \<Rightarrow> world \<Rightarrow> world" where
  "log_caught article_id r w =
     (case r of None \<Rightarrow> w | Some e \<Rightarrow> w\<lparr>caught := caught w @ [(article_id, e)]\<rparr>)"

text \<open>One iteration of the loop over the unanalyzed articles.\<close>

definition analysis_step ::
  "env \<Rightarrow> analyzer \<Rightarrow> nat \<Rightarrow> nat \<times> string \<Rightarrow> nat \<Rightarrow> world \<Rightarrow> (control \<times> nat) \<times> world" where
  "analysis_step E an i article cnt w =
     (case is_set E w of
        (True, w1) \<Rightarrow> ((Stop, cnt), set_status ''Stopping...'' w1)
      | (False, w1) \<Rightarrow>
          (case analyze_article E an article cnt
                  (set_current_task (''Analyzing article ID: '' @ str_nat (fst article)) w1) of
             ((r, cnt'), w2) \<Rightarrow>
               ((Go, cnt'), set_progress (i + 1) (log_caught (fst article) r w2))))"

fun analysis_loop ::
  "env \<Rightarrow> analyzer \<Rightarrow> nat \<Rightarrow> (nat \<times> string) list \<Rightarrow> nat \<Rightarrow> world \<Rightarrow> nat \<times> world" where
  "analysis_loop E an i [] cnt w = (cnt, w)"
| "analysis_loop E an i (article # rest) cnt w =
     (case analysis_step E an i article cnt w of
        ((Stop, cnt'), w') \<Rightarrow> (cnt', w')
      | ((Go, cnt'), w') \<Rightarrow> analysis_loop E an (i + 1) rest cnt' w')"

definition analysis_stats :: "nat \<Rightarrow> stats" where
  "analysis_stats n = [''entities_analyzed'' \<mapsto> I n]"

definition run_analysis_pipeline :: "env \<Rightarrow> llm_config \<Rightarrow> world \<Rightarrow> (exn + stats) \<times> world" where
  "run_analysis_pipeline E cfg w =
     (let w0 = enter_stage Extraction w
      in case SentimentAnalyzer E cfg of
           Inl e \<Rightarrow> (Inr (analysis_stats 0), set_status (''Error: '' @ e) w0)
         | Inr an \<Rightarrow>
             (case get_unanalyzed_articles E w0 of
                (Inl e, w1) \<Rightarrow> (Inl e, w1)
              | (Inr articles_to_analyze, w1) \<Rightarrow>
                  (let w2 = w1\<lparr>job := (job w1)\<lparr>status := ''Analyzing sentiment'',
                                                 progress := 0,
                                                 total' := length articles_to_analyze\<rparr>\<rparr>
                   in if articles_to_analyze = [] then
                        (Inr (analysis_stats 0),
                         set_current_task ''No new articles to analyze.'' w2)
                      else
                        (case analysis_loop E an 0 articles_to_analyze 0 w2 of
                           (sentiments_found_count, w3) \<Rightarrow>
                             (Inr (analysis_stats sentiments_found_count), w3)))))"

section \<open>Job controller\<close>

text \<open>The first two statements of \<^verbatim>\<open>pipeline_task\<close>, run by the new thread.\<close>

definition pipeline_task_enter :: "nat \<Rightarrow> world \<Rightarrow> world" where
  "pipeline_task_enter ev w = w\<lparr>job := (job w)\<lparr>is_running := True, stop_event := Some ev\<rparr>\<rparr>"

text \<open>
  The \<^verbatim>\<open>try\<close> block up to the merged statistics: acquisition, then extraction unless the stop
  event is set, then the status from a second look at the event.
\<close>

definition final_stats :: "env \<Rightarrow> stats \<Rightarrow> stats \<Rightarrow> world \<Rightarrow> stats \<times> world" where
  "final_stats E sc an w =
     (case is_set E w of
        (stopped, w1) \<Rightarrow>
          (sc ++ an ++ [''status'' \<mapsto> S (if stopped then ''Stopped by user'' else ''Completed'')],
           w1))"

definition run_stages ::
  "env \<Rightarrow> py_module list \<Rightarrow> llm_config \<Rightarrow> world \<Rightarrow> (exn + stats) \<times> world" where
  "run_stages E scraper_mods cfg w =
     (case run_scraping_pipeline E scraper_mods w of
        (Inl e, w1) \<Rightarrow> (Inl e, w1)
      | (Inr sc, w1) \<Rightarrow>
          (case is_set E w1 of
             (True, w2) \<Rightarrow> (case final_stats E sc Map.empty w2 of (st, w3) \<Rightarrow> (Inr st, w3))
           | (False, w2) \<Rightarrow>
               (case run_analysis_pipeline E cfg w2 of
                  (Inl e, w3) \<Rightarrow> (Inl e, w3)
                | (Inr an, w3) \<Rightarrow>
                    (case final_stats E sc an w3 of (st, w4) \<Rightarrow> (Inr st, w4)))))"

definition failed_stats :: "exn \<Rightarrow> stats" where
  "failed_stats e = [''status'' \<mapsto> S (''Failed: '' @ e)]"

text \<open>
  \<^verbatim>\<open>try\<close>, \<^verbatim>\<open>except\<close>, \<^verbatim>\<open>finally\<close>: the summary is written in the \<^verbatim>\<open>try\<close> block, so an
  exception of that write is caught as well; an exception of the write in the handler leaves
  the function, after the \<^verbatim>\<open>finally\<close> block. The result carries the exception that left.
\<close>

definition guarded_run ::
  "env \<Rightarrow> (exn + stats) \<times> world \<Rightarrow> exn option \<times> world" where
  "guarded_run E body =
     (case (case body of
              (Inl e, w1) \<Rightarrow> (Inl e, w1)
            | (Inr st, w1) \<Rightarrow> add_pipeline_run E st w1) of
        (Inr u, w2) \<Rightarrow> (None, w2\<lparr>job := idle_tracker\<rparr>)
      | (Inl e, w2) \<Rightarrow>
          (case add_pipeline_run E (failed_stats e) w2 of
             (Inr u, w3) \<Rightarrow> (None, w3\<lparr>job := idle_tracker\<rparr>)
           | (Inl e', w3) \<Rightarrow> (Some e', w3\<lparr>job := idle_tracker\<rparr>)))"

definition pipeline_task_body ::
  "env \<Rightarrow> py_module list \<Rightarrow> llm_config \<Rightarrow> world \<Rightarrow> exn option \<times> world" where
  "pipeline_task_body E scraper_mods cfg w = guarded_run E (run_stages E scraper_mods cfg w)"

definition pipeline_task ::
  "env \<Rightarrow> py_module list \<Rightarrow> nat \<Rightarrow> llm_config \<Rightarrow> world \<Rightarrow> exn option \<times> world" where
  "pipeline_task E scraper_mods ev cfg w =
     pipeline_task_body E scraper_mods cfg (pipeline_task_enter ev w)"

text \<open>\<^verbatim>\<open>get_pipeline_status\<close>: the tracker without the stop event.\<close>

definition get_pipeline_status :: "world \<Rightarrow> bool \<times> string \<times> nat \<times> nat \<times> string" where
  "get_pipeline_status w =
     (is_running (job w), status (job w), progress (job w), total' (job w),
      current_task (job w))"

section \<open>Scheduler entry point\<close>

definition default_config :: llm_config where
  "default_config =
     \<lparr>provider = None, model_name = None, openai_api_key = None, groq_api_key = None\<rparr>"

text \<open>
  The \<^verbatim>\<open>try\<close> block of \<^verbatim>\<open>scheduled_pipeline_run\<close>: both stages, one after the other, and the
  status \<^verbatim>\<open>"Completed"\<close>.
\<close>

definition scheduled_stages ::
  "env \<Rightarrow> py_module list \<Rightarrow> world \<Rightarrow> (exn + stats) \<times> world" where
  "scheduled_stages E scraper_modules w =
     (case run_scraping_pipeline E scraper_modules w of
        (Inl e, w1) \<Rightarrow> (Inl e, w1)
      | (Inr sc, w1) \<Rightarrow>
          (case run_analysis_pipeline E default_config w1 of
             (Inl e, w2) \<Rightarrow> (Inl e, w2)
           | (Inr an, w2) \<Rightarrow> (Inr (sc ++ an ++ [''status'' \<mapsto> S ''Completed'']), w2)))"

definition scheduled_body ::
  "env \<Rightarrow> py_module list \<Rightarrow> nat \<Rightarrow> world \<Rightarrow> exn option \<times> world" where
  "scheduled_body E scraper_modules ev w =
     guarded_run E (scheduled_stages E scraper_modules (pipeline_task_enter ev w))"

text \<open>
  \<^verbatim>\<open>scheduled_pipeline_run\<close>; \<open>ev\<close> is the event object it creates. It returns early when a
  run is active, when discovery raises and when there is no scraper.
\<close>

definition scheduled_pipeline_run :: "env \<Rightarrow> nat \<Rightarrow> world \<Rightarrow> exn option \<times> world" where
  "scheduled_pipeline_run E ev w =
     (if is_running (job w) then (None, w)
      else
        (case get_scraper_modules (scrapers_dir E) None w of
           (Inl e, w1) \<Rightarrow> (None, w1)
         | (Inr scraper_modules, w1) \<Rightarrow>
             (if scraper_modules = [] then (None, w1)
              else scheduled_body E scraper_modules ev w1)))"

section \<open>Trigger handler and background threads\<close>

text \<open>
  The JSON body of a trigger request: every key may be absent.
\<close>

record trigger_request =
  req_scrapers :: "string list option"
  req_provider :: "string option"
  req_model_name :: "string option"
  req_openai_api_key :: "string option"
  req_groq_api_key :: "string option"

text \<open>
  A background thread holds the arguments of \<^verbatim>\<open>pipeline_task\<close>. It is \<open>Spawned\<close> from
  \<^verbatim>\<open>thread.start()\<close> until it runs its first statement, \<open>Running\<close> until the \<^verbatim>\<open>finally\<close>
  block is done, and \<open>Finished\<close> after that.
\<close>

datatype phase = Spawned | Running | Finished

record thread =
  th_scraper_mods :: "py_module list"
  th_stop_event :: nat
  th_llm_config :: llm_config
  th_phase :: phase

record system =
  sys_world :: world
  threads :: "thread list"

type_synonym response = "nat \<times> string"

text \<open>
  \<^verbatim>\<open>trigger_pipeline\<close>: the handler reads \<^verbatim>\<open>is_running\<close>, resolves the scrapers, starts the
  thread and answers. It does not write the tracker; the thread does.
\<close>

definition trigger_pipeline :: "env \<Rightarrow> trigger_request \<Rightarrow> system \<Rightarrow> response \<times> system" where
  "trigger_pipeline E req s =
     (if is_running (job (sys_world s)) then
        ((409, ''A pipeline is already running.''), s)
      else
        (case get_scraper_modules (scrapers_dir E) (req_scrapers req) (sys_world s) of
           (Inl e, w1) \<Rightarrow> ((500, ''Failed to load scraper modules.''), s\<lparr>sys_world := w1\<rparr>)
         | (Inr scraper_modules, w1) \<Rightarrow>
             (if scraper_modules = [] then
                ((400, ''No valid scrapers found for the given selection.''),
                 s\<lparr>sys_world := w1\<rparr>)
              else
                (let config = \<lparr>provider = req_provider req, model_name = req_model_name req,
                               openai_api_key = req_openai_api_key req,
                               groq_api_key = req_groq_api_key req\<rparr>;
                     t = \<lparr>th_scraper_mods = scraper_modules,
                          th_stop_event = length (threads s),
                          th_llm_config = config, th_phase = Spawned\<rparr>
                 in ((202, ''Pipeline triggered successfully in the background.''),
                     s\<lparr>sys_world := w1, threads := threads s @ [t]\<rparr>)))))"

definition thread_begin :: "nat \<Rightarrow> system \<Rightarrow> system" where
  "thread_begin tid s =
     (if tid < length (threads s) \<and> th_phase (threads s ! tid) = Spawned then
        s\<lparr>sys_world := pipeline_task_enter (th_stop_event (threads s ! tid)) (sys_world s),
          threads := (threads s)[tid := (threads s ! tid)\<lparr>th_phase := Running\<rparr>]\<rparr>
      else s)"

definition thread_finish :: "env \<Rightarrow> nat \<Rightarrow> system \<Rightarrow> system" where
  "thread_finish E tid s =
     (if tid < length (threads s) \<and> th_phase (threads s ! tid) = Running then
        s\<lparr>sys_world :=
            snd (pipeline_task_body E (th_scraper_mods (threads s ! tid))
                   (th_llm_config (threads s ! tid)) (sys_world s)),
          threads := (threads s)[tid := (threads s ! tid)\<lparr>th_phase := Finished\<rparr>]\<rparr>
      else s)"

text \<open>
  What happens in the process, in the order it happens: a trigger request is handled, a
  spawned thread runs its first two statements, a running thread runs to its end.
\<close>

datatype event = Trigger trigger_request | Begin nat | Finish nat

fun step :: "env \<Rightarrow> event \<Rightarrow> system \<Rightarrow> response list \<times> system" where
  "step E (Trigger req) s = (case trigger_pipeline E req s of (r, s') \<Rightarrow> ([r], s'))"
| "step E (Begin tid) s = ([], thread_begin tid s)"
| "step E (Finish tid) s = ([], thread_finish E tid s)"

fun run_events :: "env \<Rightarrow> event list \<Rightarrow> system \<Rightarrow> response list \<times> system" where
  "run_events E [] s = ([], s)"
| "run_events E (ev # evs) s =
     (case step E ev s of
        (rs, s') \<Rightarrow> (case run_events E evs s' of (rs', s'') \<Rightarrow> (rs @ rs', s'')))"

definition active_runs :: "system \<Rightarrow> nat" where
  "active_runs s = length (filter (\<lambda>t. th_phase t = Running) (threads s))"

section \<open>Notions used in the properties\<close>


definition analyzed :: "database \<Rightarrow> nat \<Rightarrow> bool" where
  "analyzed d i =
     (i \<in> set (map a_id (articles d)) \<and> (\<forall>a \<in> set (articles d). a_id a = i \<longrightarrow> a_is_analyzed a))"

text \<open>
  Setting the flag on every article of a set of ids.
\<close>

definition mark_all :: "nat set \<Rightarrow> article_row list \<Rightarrow> article_row list" where
  "mark_all J rows = map (\<lambda>a. if a_id a \<in> J then a\<lparr>a_is_analyzed := True\<rparr> else a) rows"

text \<open>
  The call of the language model on a text fails: the first attempt that is not a validation
  error raises another exception, or all three attempts end in a validation error. These are
  the paths of \<^verbatim>\<open>analyze_text_for_sentiment\<close> on which no response is returned by the chain.
\<close>

definition extractor_call_fails :: "env \<Rightarrow> string \<Rightarrow> bool" where
  "extractor_call_fails E text =
     (case llm_invoke E text 0 of
        LlmResponse ents u \<Rightarrow> False
      | LlmError e \<Rightarrow> True
      | ValidationError e \<Rightarrow>
          (case llm_invoke E text 1 of
             LlmResponse ents u \<Rightarrow> False
           | LlmError e \<Rightarrow> True
           | ValidationError e \<Rightarrow>
               (case llm_invoke E text 2 of
                  LlmResponse ents u \<Rightarrow> False
                | LlmError e \<Rightarrow> True
                | ValidationError e \<Rightarrow> True)))"


section \<open>Sample inputs\<close>

text \<open>
  Two scrapers. The first lists one page and fetches nothing. The second lists one article
  under two addresses and, as the Gulf News scraper does with the canonical link of a page,
  reports the same url for both.
\<close>

definition unavailable :: "url \<Rightarrow> exn + article_data option" where
  "unavailable u = Inr None"

definition zawya :: py_module where
  "zawya = \<lparr>SOURCE_NAME = Some ''zawya.com'', get_article_urls = Some (Inr [''z/1'']),
     scrape_article_content = Some unavailable\<rparr>"

definition canonical_page :: "url \<Rightarrow> exn + article_data option" where
  "canonical_page u =
     Inr (Some \<lparr>ad_url = ''g/a'', ad_title = ''A'', ad_author = ''N/A'',
                ad_publication_date = ''N/A'', ad_raw_text = ''text'',
                ad_cleaned_text = Some ''text''\<rparr>)"

definition gulfnews :: py_module where
  "gulfnews = \<lparr>SOURCE_NAME = Some ''gulfnews.com'',
     get_article_urls = Some (Inr [''g/a'', ''g/a?ref=home'']),
     scrape_article_content = Some canonical_page\<rparr>"

text \<open>
  The scrapers directory, and the same directory in a process where a package that the
  scrapers import is not installed.
\<close>

definition importer :: "string \<Rightarrow> import_outcome" where
  "importer n = (if n = ''scrapers.zawya_scraper'' then Imported zawya
                 else if n = ''scrapers.gulfnews_scraper'' then Imported gulfnews
                 else ImportError ''No module'')"

definition scrapers_folder :: filesystem where
  "scrapers_folder =
     \<lparr>listdir = Inr [''zawya_scraper.py'', ''gulfnews_scraper.py'', ''scraper_manager.py''],
      import_module = importer\<rparr>"

definition missing_dependency :: "string \<Rightarrow> import_outcome" where
  "missing_dependency n = ImportError ''No module named requests''"

definition broken_folder :: filesystem where
  "broken_folder =
     \<lparr>listdir = Inr [''zawya_scraper.py'', ''gulfnews_scraper.py'', ''scraper_manager.py''],
      import_module = missing_dependency\<rparr>"

text \<open>
  Environments: nothing goes wrong and the language model finds no entity; the store
  operation number \<open>k\<close> fails; the stop event is set from the second poll on.
\<close>

definition no_entities :: "string \<Rightarrow> nat \<Rightarrow> llm_outcome" where
  "no_entities t n = LlmResponse [] \<lparr>total_tokens = 9, prompt_tokens = 8, completion_tokens = 1\<rparr>"

definition no_fault :: "nat \<Rightarrow> exn option" where
  "no_fault n = None"

definition locked_at :: "nat \<Rightarrow> nat \<Rightarrow> exn option" where
  "locked_at k n = (if n = k then Some ''database is locked'' else None)"

definition calm :: env where
  "calm = \<lparr>cancel_at = None, store_fault = no_fault, llm_invoke = no_entities,
     environ_openai = Some ''sk'', environ_groq = None, scrapers_dir = scrapers_folder\<rparr>"

definition locked :: "nat \<Rightarrow> env" where
  "locked k = calm\<lparr>store_fault := locked_at k\<rparr>"

definition stop_early :: env where
  "stop_early = calm\<lparr>cancel_at := Some 1\<rparr>"

text \<open>
  The language model cannot be reached for one text and finds no entity in any other:
  alone, and together with a store that fails at its operation number 4.
\<close>

definition outage_on :: "string \<Rightarrow> string \<Rightarrow> nat \<Rightarrow> llm_outcome" where
  "outage_on bad t n = (if t = bad then LlmError ''Connection error.'' else no_entities t n)"

definition offline :: env where
  "offline = calm\<lparr>llm_invoke := outage_on ''t1''\<rparr>"

definition troubled :: env where
  "troubled = calm\<lparr>store_fault := locked_at 4, llm_invoke := outage_on ''t2''\<rparr>"

definition openai_analyzer :: analyzer where
  "openai_analyzer = \<lparr>an_provider = ''openai'', an_model_name = ''gpt-4o-mini''\<rparr>"

text \<open>
  A store with two fetched articles that are not analyzed yet, a trigger request without a
  body, and the process before any request.
\<close>

definition fetched :: "nat \<Rightarrow> url \<Rightarrow> string \<Rightarrow> article_row" where
  "fetched i u t = \<lparr>a_id = i, a_link_id = i, a_url = u, a_title = ''T'', a_author = ''N/A'',
     a_publication_date = ''N/A'', a_raw_text = t, a_cleaned_text = Some t,
     a_is_analyzed = False\<rparr>"

definition stored :: world where
  "stored = initial_world\<lparr>db :=
     \<lparr>links = [\<lparr>l_id = 1, l_url = ''z/1'', l_source_website = ''zawya.com''\<rparr>,
               \<lparr>l_id = 2, l_url = ''z/2'', l_source_website = ''zawya.com''\<rparr>],
      articles = [fetched 1 ''z/1'' ''t1'', fetched 2 ''z/2'' ''t2''],
      sentiments = [], usage_logs = [], pipeline_runs = []\<rparr>\<rparr>"

definition everything :: trigger_request where
  "everything = \<lparr>req_scrapers = None, req_provider = None, req_model_name = None,
     req_openai_api_key = None, req_groq_api_key = None\<rparr>"

definition at_start :: system where
  "at_start = \<lparr>sys_world = initial_world, threads = []\<rparr>"

section \<open>Evaluating the model on the sample inputs\<close>

text \<open>
  The definitions that a run on a concrete input unfolds, collected by module.
\<close>

lemmas examples = unavailable_def zawya_def canonical_page_def gulfnews_def importer_def
  scrapers_folder_def missing_dependency_def broken_folder_def no_entities_def no_fault_def
  locked_at_def calm_def openai_analyzer_def fetched_def stored_def everything_def at_start_def

lemmas more = stop_early_def locked_def

lemmas outages = extractor_call_fails_def outage_on_def offline_def troubled_def

lemmas registry_defs = discover_scrapers_def get_scraper_modules_def endswith_def
  startswith_def is_valid_scraper_def

lemmas store_defs = store_call_def next_id_def add_link_def add_article_def add_sentiment_def
  add_usage_log_def dict_get_def add_pipeline_run_def unscraped_links_def
  get_unscraped_links_def selectable_def unanalyzed_articles_def get_unanalyzed_articles_def
  set_analyzed_def mark_article_as_analyzed_def

lemmas acquisition_defs = is_set_def set_status_def set_progress_def set_current_task_def
  enter_stage_def getattr_SOURCE_NAME_def call_get_article_urls_def
  call_scrape_article_content_def truthy_id_def scrape_links_step_def scraper_map_def
  scrape_article_step_def scraping_stats_def run_scraping_pipeline_def

lemmas extraction_defs = falsy_def py_or_def SentimentAnalyzer_def MAX_RETRIES_def
  analyze_text_for_sentiment_def analyze_article_def log_caught_def analysis_step_def
  analysis_stats_def run_analysis_pipeline_def str_nat.simps

lemmas controller_defs = idle_tracker_def initial_world_def pipeline_task_enter_def
  final_stats_def run_stages_def failed_stats_def guarded_run_def pipeline_task_body_def
  pipeline_task_def get_pipeline_status_def default_config_def scheduled_stages_def
  scheduled_body_def scheduled_pipeline_run_def

lemmas handler_defs = trigger_pipeline_def thread_begin_def thread_finish_def active_runs_def

lemmas run_defs = examples registry_defs store_defs acquisition_defs extraction_defs
  controller_defs handler_defs upt_rec Let_def

section \<open>What the operations do to the article table\<close>

text \<open>
  The tracker updates, the polls of the stop event and the fault lookup leave the store
  alone; a new row gets an id that no row has.
\<close>

lemma setters_db [simp]:
  "db (set_status s w) = db w" "db (set_progress n w) = db w"
  "db (set_current_task s w) = db w" "db (enter_stage g w) = db w"
  "db (log_caught i r w) = db w" "db (pipeline_task_enter ev w) = db w"
  by (simp_all add: set_status_def set_progress_def set_current_task_def enter_stage_def
        log_caught_def pipeline_task_enter_def split: option.splits)


lemma store_call_db: "store_call E w = (r, w') \<Longrightarrow> db w' = db w"
  by (auto simp: store_call_def)






lemma set_analyzed_id [simp]: "a_id (set_analyzed j a) = a_id a"
  by (simp add: set_analyzed_def)

lemma set_analyzed_flag [simp]: "a_is_analyzed (set_analyzed j a) = (a_id a = j \<or> a_is_analyzed a)"
  by (simp add: set_analyzed_def)







lemma mark_rows:
  "mark_article_as_analyzed E j w = (r, w') \<Longrightarrow>
     (case r of Inl e \<Rightarrow> articles (db w') = articles (db w)
      | Inr u \<Rightarrow> articles (db w') = map (set_analyzed j) (articles (db w)))"
  by (auto simp: mark_article_as_analyzed_def dest!: store_call_db split: prod.splits option.splits)




lemma ids_add_usage_log: "add_usage_log E a p u w = (r, w') \<Longrightarrow> articles (db w') = articles (db w)"
  by (auto simp: add_usage_log_def Let_def dest!: store_call_db split: prod.splits option.splits)

lemma ids_add_sentiment: "add_sentiment E a ent w = (r, w') \<Longrightarrow> articles (db w') = articles (db w)"
  by (auto simp: add_sentiment_def Let_def dest!: store_call_db split: prod.splits option.splits)

lemma ids_add_sentiments_loop:
  "add_sentiments_loop E a ents cnt w = (r, w') \<Longrightarrow> articles (db w') = articles (db w)"
  by (induction ents arbitrary: cnt w) (auto dest: ids_add_sentiment split: prod.splits sum.splits)


section \<open>The flag of an analyzed article is never cleared\<close>


















lemma discover_scrapers_db: "discover_scrapers fs w = (r, w') \<Longrightarrow> db w' = db w \<and> job w' = job w"
  by (auto simp: discover_scrapers_def Let_def split: if_splits sum.splits)





lemma analyzed_not_selected: "analyzed d i \<Longrightarrow> i \<notin> fst ` set (unanalyzed_articles d)"
  by (auto simp: analyzed_def unanalyzed_articles_def selectable_def)

section \<open>Extraction stage: articles without entities\<close>



section \<open>Extraction stage: an article whose processing raises\<close>

lemma mark_all_empty [simp]: "mark_all {} rows = rows"
  by (simp add: mark_all_def)

lemma mark_all_insert: "mark_all J (map (set_analyzed j) rows) = mark_all (insert j J) rows"
  by (auto simp: mark_all_def set_analyzed_def)

lemma not_cancelled: "cancel_at E = None \<Longrightarrow> is_set E w = (False, w\<lparr>polls := Suc (polls w)\<rparr>)"
  by (simp add: is_set_def)

lemma caught_add_usage_log: "add_usage_log E a p u w = (r, w') \<Longrightarrow> caught w' = caught w \<and> job w' = job w"
  by (auto simp: add_usage_log_def store_call_def Let_def split: option.splits)

lemma caught_add_sentiment: "add_sentiment E a ent w = (r, w') \<Longrightarrow> caught w' = caught w \<and> job w' = job w"
  by (auto simp: add_sentiment_def store_call_def Let_def split: option.splits)

lemma caught_mark: "mark_article_as_analyzed E a w = (r, w') \<Longrightarrow> caught w' = caught w \<and> job w' = job w"
  by (auto simp: mark_article_as_analyzed_def store_call_def Let_def split: option.splits)

lemma caught_add_sentiments_loop:
  "add_sentiments_loop E a ents cnt w = (r, w') \<Longrightarrow> caught w' = caught w \<and> job w' = job w"
proof (induction ents arbitrary: cnt w)
  case Nil
  then show ?case by simp
next
  case (Cons ent ents)
  obtain q w1 where s: "add_sentiment E a ent w = (q, w1)" by (metis prod.exhaust)
  from caught_add_sentiment [OF s] have c1: "caught w1 = caught w \<and> job w1 = job w" .
  show ?case
  proof (cases q)
    case (Inl e)
    with s Cons.prems c1 show ?thesis by auto
  next
    case (Inr u)
    with s Cons.prems have "add_sentiments_loop E a ents (cnt + 1) w1 = (r, w')" by simp
    from Cons.IH [OF this] c1 show ?thesis by simp
  qed
qed

text \<open>
  The body of the loop either raises and leaves the article table as it was, or returns and
  has set the flag of its own article; without a stop request the loop visits every article
  and the flags it has set are those of the articles that did not raise.
\<close>

lemma analyze_article_effect:
  assumes "analyze_article E an x cnt w = ((r, cnt'), w')"
  shows "caught w' = caught w \<and> job w' = job w \<and>
    articles (db w') = (case r of Some e \<Rightarrow> articles (db w)
                        | None \<Rightarrow> map (set_analyzed (fst x)) (articles (db w)))"
proof -
  obtain ents usage where t: "analyze_text_for_sentiment E an (snd x) = (ents, usage)"
    by (metis prod.exhaust)
  obtain q1 w1 where u: "(case usage of None \<Rightarrow> (Inr (), w)
      | Some u \<Rightarrow> add_usage_log E (fst x) (an_provider an) u w) = (q1, w1)"
    by (metis prod.exhaust)
  have e1: "caught w1 = caught w \<and> job w1 = job w \<and> articles (db w1) = articles (db w)"
    using u by (cases usage) (auto dest: caught_add_usage_log ids_add_usage_log)
  show ?thesis
  proof (cases q1)
    case (Inl e)
    with assms t u e1 show ?thesis by (auto simp: analyze_article_def)
  next
    case (Inr v)
    obtain q2 c2 w2 where l: "add_sentiments_loop E (fst x) ents cnt w1 = ((q2, c2), w2)"
      by (metis prod.exhaust)
    from caught_add_sentiments_loop [OF l] ids_add_sentiments_loop [OF l] e1
    have e2: "caught w2 = caught w \<and> job w2 = job w \<and> articles (db w2) = articles (db w)"
      by simp
    show ?thesis
    proof (cases q2)
      case (Some e)
      with assms t u Inr l e2 show ?thesis by (auto simp: analyze_article_def)
    next
      case None
      obtain q3 w3 where m: "mark_article_as_analyzed E (fst x) w2 = (q3, w3)"
        by (metis prod.exhaust)
      from caught_mark [OF m] mark_rows [OF m] e2 assms t u Inr l None m
      show ?thesis by (cases q3) (auto simp: analyze_article_def)
    qed
  qed
qed

lemma analysis_step_effect:
  assumes nc: "cancel_at E = None"
    and st: "analysis_step E an k x cnt w = (r, w')"
  shows "fst r = Go \<and> progress (job w') = k + 1 \<and>
    ((\<exists>e. caught w' = caught w @ [(fst x, e)] \<and> articles (db w') = articles (db w)) \<or>
     (caught w' = caught w \<and> articles (db w') = map (set_analyzed (fst x)) (articles (db w))))"
proof -
  let ?w1 = "set_current_task (''Analyzing article ID: '' @ str_nat (fst x)) (w\<lparr>polls := Suc (polls w)\<rparr>)"
  obtain q c w2 where b: "analyze_article E an x cnt ?w1 = ((q, c), w2)"
    by (metis prod.exhaust)
  from analyze_article_effect [OF b]
  have e: "caught w2 = caught w \<and>
    articles (db w2) = (case q of Some e \<Rightarrow> articles (db w)
                        | None \<Rightarrow> map (set_analyzed (fst x)) (articles (db w)))"
    by (cases q) (simp_all add: set_current_task_def)
  from st b nc have w': "w' = set_progress (k + 1) (log_caught (fst x) q w2)" and r: "r = (Go, c)"
    by (auto simp: analysis_step_def not_cancelled)
  show ?thesis using e w' r
    by (cases q) (auto simp: set_progress_def log_caught_def)
qed

lemma analysis_loop_effect:
  assumes nc: "cancel_at E = None"
  shows "analysis_loop E an k xs cnt w = (n, w') \<Longrightarrow> distinct (map fst xs) \<Longrightarrow>
    (\<exists>new. caught w' = caught w @ new \<and> fst ` set new \<subseteq> fst ` set xs \<and>
       articles (db w') = mark_all (fst ` set xs - fst ` set new) (articles (db w))) \<and>
    (xs \<noteq> [] \<longrightarrow> progress (job w') = k + length xs)"
proof (induction xs arbitrary: k cnt w)
  case Nil
  then show ?case by simp
next
  case (Cons x xs)
  obtain c m w1 where st: "analysis_step E an k x cnt w = ((c, m), w1)" by (metis prod.exhaust)
  from analysis_step_effect [OF nc st]
  have go: "c = Go" and p1: "progress (job w1) = k + 1"
    and eff: "(\<exists>e. caught w1 = caught w @ [(fst x, e)] \<and> articles (db w1) = articles (db w)) \<or>
     (caught w1 = caught w \<and> articles (db w1) = map (set_analyzed (fst x)) (articles (db w)))"
    by simp_all
  from st go Cons.prems(1) have rest: "analysis_loop E an (k + 1) xs m w1 = (n, w')" by simp
  from Cons.prems(2) have d: "distinct (map fst xs)" and nx: "fst x \<notin> fst ` set xs" by auto
  from Cons.IH [OF rest d] obtain new where
    c: "caught w' = caught w1 @ new" and sub: "fst ` set new \<subseteq> fst ` set xs"
    and a: "articles (db w') = mark_all (fst ` set xs - fst ` set new) (articles (db w1))"
    and p: "xs \<noteq> [] \<longrightarrow> progress (job w') = k + 1 + length xs"
    by auto
  have prog: "progress (job w') = k + length (x # xs)"
  proof (cases xs)
    case Nil
    with rest p1 show ?thesis by simp
  next
    case (Cons y ys)
    with p show ?thesis by simp
  qed
  from eff show ?case
  proof
    assume "\<exists>e. caught w1 = caught w @ [(fst x, e)] \<and> articles (db w1) = articles (db w)"
    then obtain e where c1: "caught w1 = caught w @ [(fst x, e)]"
      and a1: "articles (db w1) = articles (db w)" by auto
    have s: "fst ` set (x # xs) - fst ` set ((fst x, e) # new) = fst ` set xs - fst ` set new"
      using nx by auto
    have "caught w' = caught w @ ((fst x, e) # new)" using c c1 by simp
    moreover have "fst ` set ((fst x, e) # new) \<subseteq> fst ` set (x # xs)" using sub by auto
    moreover have "articles (db w') =
        mark_all (fst ` set (x # xs) - fst ` set ((fst x, e) # new)) (articles (db w))"
      using a a1 s by simp
    ultimately show ?thesis using prog by blast
  next
    assume "caught w1 = caught w \<and> articles (db w1) = map (set_analyzed (fst x)) (articles (db w))"
    then have c1: "caught w1 = caught w"
      and a1: "articles (db w1) = map (set_analyzed (fst x)) (articles (db w))" by auto
    have s: "insert (fst x) (fst ` set xs - fst ` set new) = fst ` set (x # xs) - fst ` set new"
      using nx sub by auto
    have "caught w' = caught w @ new" using c c1 by simp
    moreover have "fst ` set new \<subseteq> fst ` set (x # xs)" using sub by auto
    moreover have "articles (db w') = mark_all (fst ` set (x # xs) - fst ` set new) (articles (db w))"
      using a a1 s by (simp add: mark_all_insert)
    ultimately show ?thesis using prog by blast
  qed
qed

lemma mark_all_keeps_unmarked:
  assumes "x \<in> set (unanalyzed_articles d)" and "fst x \<notin> J"
    and "articles d' = mark_all J (articles d)"
  shows "x \<in> set (unanalyzed_articles d')"
proof -
  from assms(1) obtain a where a: "a \<in> set (articles d)" "selectable a"
    and x: "x = (a_id a, case a_cleaned_text a of Some t \<Rightarrow> t | None \<Rightarrow> [])"
    by (auto simp: unanalyzed_articles_def)
  from a(1) assms(2) x have "a \<in> set (mark_all J (articles d))"
    by (force simp: mark_all_def image_iff)
  with a(2) x assms(3) show ?thesis by (force simp: unanalyzed_articles_def)
qed

lemma mark_all_analyzed:
  assumes "i \<in> J" and "i \<in> set (map a_id (articles d))"
    and "articles d' = mark_all J (articles d)"
  shows "analyzed d' i"
  using assms by (auto simp: analyzed_def mark_all_def image_iff)

lemma unanalyzed_ids: "map fst (unanalyzed_articles d) = map a_id (filter selectable (articles d))"
  by (simp add: unanalyzed_articles_def comp_def)

lemma query_effect:
  "get_unanalyzed_articles E w = (Inr arts, w') \<Longrightarrow>
     arts = unanalyzed_articles (db w) \<and> db w' = db w \<and> caught w' = caught w \<and> job w' = job w"
  by (auto simp: get_unanalyzed_articles_def store_call_def split: option.splits)

lemma final_stats_not_cancelled:
  "cancel_at E = None \<Longrightarrow> final_stats E sc an w =
     (sc ++ an ++ [''status'' \<mapsto> S ''Completed''], w\<lparr>polls := Suc (polls w)\<rparr>)"
  by (simp add: final_stats_def not_cancelled)

text \<open>
  The extractor catches what the call of the language model raises: when the call fails, it
  returns no entity and no usage record.
\<close>

lemma constructed_provider:
  "SentimentAnalyzer E cfg = Inr an \<Longrightarrow> an_provider an = ''openai'' \<or> an_provider an = ''groq''"
  by (auto simp: SentimentAnalyzer_def Let_def split: if_splits)

lemma failed_call_returns_empty:
  assumes "an_provider an = ''openai'' \<or> an_provider an = ''groq''"
    and "extractor_call_fails E text"
  shows "analyze_text_for_sentiment E an text = ([], None)"
proof -
  have u: "[0..<MAX_RETRIES] = [0, 1, 2]"
    by (simp add: MAX_RETRIES_def upt_rec)
  show ?thesis
    using assms unfolding analyze_text_for_sentiment_def u extractor_call_fails_def
    by (auto simp: MAX_RETRIES_def split: llm_outcome.splits)
qed

text \<open>
  What the body of the per-item \<^verbatim>\<open>try\<close> block raises is raised by a store operation.
\<close>

lemma store_call_fault: "store_call E w = (Some e, w') \<Longrightarrow> \<exists>n. store_fault E n = Some e"
  by (auto simp: store_call_def)

lemma add_usage_log_raises:
  "add_usage_log E a p u w = (Inl e, w') \<Longrightarrow> \<exists>n. store_fault E n = Some e"
  by (auto simp: add_usage_log_def Let_def split: prod.splits option.splits
        dest: store_call_fault)

lemma add_sentiment_raises:
  "add_sentiment E a ent w = (Inl e, w') \<Longrightarrow> \<exists>n. store_fault E n = Some e"
  by (auto simp: add_sentiment_def Let_def split: prod.splits option.splits
        dest: store_call_fault)

lemma mark_raises:
  "mark_article_as_analyzed E a w = (Inl e, w') \<Longrightarrow> \<exists>n. store_fault E n = Some e"
  by (auto simp: mark_article_as_analyzed_def split: prod.splits option.splits
        dest: store_call_fault)

lemma add_sentiments_loop_raises:
  "add_sentiments_loop E a ents cnt w = ((Some e, c), w') \<Longrightarrow> \<exists>n. store_fault E n = Some e"
proof (induction ents arbitrary: cnt w)
  case Nil
  then show ?case by simp
next
  case (Cons ent ents)
  obtain q w1 where s: "add_sentiment E a ent w = (q, w1)" by (metis prod.exhaust)
  show ?case
  proof (cases q)
    case (Inl e')
    with s Cons.prems have "e' = e" by simp
    with s Inl show ?thesis by (auto dest: add_sentiment_raises)
  next
    case (Inr u)
    with s Cons.prems have "add_sentiments_loop E a ents (cnt + 1) w1 = ((Some e, c), w')"
      by simp
    from Cons.IH [OF this] show ?thesis .
  qed
qed

lemma analyze_article_raises:
  assumes "analyze_article E an x cnt w = ((Some e, c), w')"
  shows "\<exists>n. store_fault E n = Some e"
proof -
  obtain ents usage where t: "analyze_text_for_sentiment E an (snd x) = (ents, usage)"
    by (metis prod.exhaust)
  obtain q1 w1 where u: "(case usage of None \<Rightarrow> (Inr (), w)
      | Some u \<Rightarrow> add_usage_log E (fst x) (an_provider an) u w) = (q1, w1)"
    by (metis prod.exhaust)
  show ?thesis
  proof (cases q1)
    case (Inl e')
    with assms t u have "e' = e" by (simp add: analyze_article_def)
    with u Inl show ?thesis by (cases usage) (auto dest: add_usage_log_raises)
  next
    case (Inr v)
    obtain q2 c2 w2 where l: "add_sentiments_loop E (fst x) ents cnt w1 = ((q2, c2), w2)"
      by (metis prod.exhaust)
    show ?thesis
    proof (cases q2)
      case (Some e')
      with assms t u Inr l have "e' = e" by (simp add: analyze_article_def)
      with l Some show ?thesis by (auto dest: add_sentiments_loop_raises)
    next
      case None
      obtain q3 w3 where m: "mark_article_as_analyzed E (fst x) w2 = (q3, w3)"
        by (metis prod.exhaust)
      show ?thesis
      proof (cases q3)
        case (Inl e')
        with assms t u Inr l None m have "e' = e" by (simp add: analyze_article_def)
        with m Inl show ?thesis by (auto dest: mark_raises)
      next
        case (Inr v')
        with assms t u \<open>q1 = Inr v\<close> l None m show ?thesis by (simp add: analyze_article_def)
      qed
    qed
  qed
qed

lemma analysis_step_caught:
  assumes "analysis_step E an k x cnt w = (r, w')"
  shows "caught w' = caught w \<or>
    (\<exists>e n. caught w' = caught w @ [(fst x, e)] \<and> store_fault E n = Some e)"
proof -
  obtain b w1 where p: "is_set E w = (b, w1)" by (metis prod.exhaust)
  then have c1: "caught w1 = caught w" by (auto simp: is_set_def)
  show ?thesis
  proof (cases b)
    case True
    with assms p c1 show ?thesis by (auto simp: analysis_step_def set_status_def)
  next
    case False
    let ?w2 = "set_current_task (''Analyzing article ID: '' @ str_nat (fst x)) w1"
    obtain q c w3 where b: "analyze_article E an x cnt ?w2 = ((q, c), w3)"
      by (metis prod.exhaust)
    from analyze_article_effect [OF b] c1 have c3: "caught w3 = caught w"
      by (simp add: set_current_task_def)
    from assms p False b have w': "w' = set_progress (k + 1) (log_caught (fst x) q w3)"
      by (auto simp: analysis_step_def)
    show ?thesis
    proof (cases q)
      case None
      with w' c3 show ?thesis by (simp add: set_progress_def log_caught_def)
    next
      case (Some e)
      with b have "\<exists>n. store_fault E n = Some e" by (auto dest: analyze_article_raises)
      with Some w' c3 show ?thesis by (auto simp: set_progress_def log_caught_def)
    qed
  qed
qed

lemma analysis_loop_caught:
  "analysis_loop E an k xs cnt w = (m, w') \<Longrightarrow>
    \<exists>new. caught w' = caught w @ new \<and> (\<forall>p \<in> set new. \<exists>n. store_fault E n = Some (snd p))"
proof (induction xs arbitrary: k cnt w)
  case Nil
  then show ?case by simp
next
  case (Cons x xs)
  obtain c j w1 where st: "analysis_step E an k x cnt w = ((c, j), w1)" by (metis prod.exhaust)
  from analysis_step_caught [OF st] obtain new1 where
    c1: "caught w1 = caught w @ new1"
    and f1: "\<forall>p \<in> set new1. \<exists>n. store_fault E n = Some (snd p)"
    by (cases "caught w1 = caught w") (force, fastforce)
  show ?case
  proof (cases c)
    case Stop
    with st Cons.prems have "w' = w1" by simp
    with c1 f1 show ?thesis by blast
  next
    case Go
    with st Cons.prems have "analysis_loop E an (k + 1) xs j w1 = (m, w')" by simp
    from Cons.IH [OF this] obtain new2 where
      c2: "caught w' = caught w1 @ new2"
      and f2: "\<forall>p \<in> set new2. \<exists>n. store_fault E n = Some (snd p)"
      by blast
    from c1 c2 have "caught w' = caught w @ (new1 @ new2)" by simp
    moreover from f1 f2 have "\<forall>p \<in> set (new1 @ new2). \<exists>n. store_fault E n = Some (snd p)"
      by auto
    ultimately show ?thesis by blast
  qed
qed

text \<open>
  Claim C6, as stated for a failure of the extractor call, fails: the language model cannot
  be reached for the first of two selected articles; nothing is caught by the loop, both
  articles end with the flag set, and the query selects neither of them again.
\<close>

theorem extractor_failure_marks_processed:
  "unanalyzed_articles (db stored) = [(1, ''t1''), (2, ''t2'')] \<and>
   extractor_call_fails offline ''t1'' \<and>
   caught (snd (run_stages offline [zawya] default_config stored)) = [] \<and>
   map a_is_analyzed (articles (db (snd (run_stages offline [zawya] default_config stored))))
     = [True, True] \<and>
   unanalyzed_articles (db (snd (run_stages offline [zawya] default_config stored))) = []"
  by (simp add: run_defs outages)

text \<open>
  Claim C6, amended. In a run without a stop request whose acquisition stage returned and
  whose extractor was constructed, take the articles that the query of the extraction stage
  selected. The run body returns normally with status "Completed" and the loop reaches the
  end of the selection (the progress counter equals its length). An article whose processing
  raised (it is in the new entries of \<open>caught\<close>) is still selected by the query afterwards,
  and every other selected article is analyzed. Every exception caught for an article was
  raised by a store operation. A failure of the extractor call is not one of them: for a
  selected article on which the call fails, the extractor returns no entity and no usage
  record, so the article is processed as one without entities.
\<close>

theorem item_failure_isolated:
  assumes nc: "cancel_at E = None"
    and sc: "run_scraping_pipeline E mods w = (Inr sc, w1)"
    and an: "SentimentAnalyzer E cfg = Inr an"
    and q: "get_unanalyzed_articles E (enter_stage Extraction (snd (is_set E w1))) = (Inr arts, w2)"
    and d: "distinct (map a_id (articles (db w1)))"
  shows "\<exists>st w' new. run_stages E mods cfg w = (Inr st, w') \<and>
      st ''status'' = Some (S ''Completed'') \<and>
      caught w' = caught w1 @ new \<and> progress (job w') = length arts \<and>
      (\<forall>x \<in> set arts. if fst x \<in> fst ` set new then x \<in> set (unanalyzed_articles (db w'))
                       else analyzed (db w') (fst x)) \<and>
      (\<forall>p \<in> set new. \<exists>n. store_fault E n = Some (snd p)) \<and>
      (\<forall>x \<in> set arts. extractor_call_fails E (snd x) \<longrightarrow>
         analyze_text_for_sentiment E an (snd x) = ([], None))"
proof -
  let ?w1 = "w1\<lparr>polls := Suc (polls w1)\<rparr>"
  from nc have p: "is_set E w1 = (False, ?w1)" by (rule not_cancelled)
  from q p have q': "get_unanalyzed_articles E (enter_stage Extraction ?w1) = (Inr arts, w2)"
    by simp
  from query_effect [OF q']
  have arts: "arts = unanalyzed_articles (db w1)" and db2: "db w2 = db w1"
    and c2: "caught w2 = caught w1"
    by (simp_all add: enter_stage_def)
  from d have dist: "distinct (map fst arts)"
    unfolding arts unanalyzed_ids by (rule distinct_map_filter)
  have ext: "\<forall>x \<in> set arts. extractor_call_fails E (snd x) \<longrightarrow>
         analyze_text_for_sentiment E an (snd x) = ([], None)"
    using failed_call_returns_empty [OF constructed_provider [OF an]] by blast
  let ?w2 = "w2\<lparr>job := (job w2)\<lparr>status := ''Analyzing sentiment'', progress := 0,
                                   total' := length arts\<rparr>\<rparr>"
  show ?thesis
  proof (cases "arts = []")
    case True
    let ?w3 = "set_current_task ''No new articles to analyze.'' ?w2"
    from an q' True have ra: "run_analysis_pipeline E cfg ?w1 = (Inr (analysis_stats 0), ?w3)"
      by (simp add: run_analysis_pipeline_def Let_def)
    let ?w' = "?w3\<lparr>polls := Suc (polls ?w3)\<rparr>"
    from sc p ra nc
    have rs: "run_stages E mods cfg w =
        (Inr (sc ++ analysis_stats 0 ++ [''status'' \<mapsto> S ''Completed'']), ?w')"
      by (simp add: run_stages_def final_stats_not_cancelled)
    have st: "(sc ++ analysis_stats 0 ++ [''status'' \<mapsto> S ''Completed'']) ''status''
        = Some (S ''Completed'')" by simp
    have cw: "caught ?w' = caught w1 @ []"
      using c2 by (simp add: set_current_task_def)
    have pw: "progress (job ?w') = length arts"
      using True by (simp add: set_current_task_def)
    have items: "\<forall>x \<in> set arts. if fst x \<in> fst ` set []
        then x \<in> set (unanalyzed_articles (db ?w')) else analyzed (db ?w') (fst x)"
      using True by simp
    have faults: "\<forall>p \<in> set []. \<exists>n. store_fault E n = Some (snd p)" by simp
    show ?thesis
      by (intro exI conjI) (rule rs, rule st, rule cw, rule pw, rule items, rule faults, rule ext)
  next
    case False
    obtain n w3 where l: "analysis_loop E an 0 arts 0 ?w2 = (n, w3)" by (metis prod.exhaust)
    from analysis_loop_effect [OF nc l dist] False obtain new where
      c3: "caught w3 = caught ?w2 @ new"
      and a3: "articles (db w3) = mark_all (fst ` set arts - fst ` set new) (articles (db ?w2))"
      and p3: "progress (job w3) = length arts"
      by auto
    from analysis_loop_caught [OF l] c3
    have faults: "\<forall>p \<in> set new. \<exists>n. store_fault E n = Some (snd p)" by auto
    from an q' False l have ra: "run_analysis_pipeline E cfg ?w1 = (Inr (analysis_stats n), w3)"
      by (simp add: run_analysis_pipeline_def Let_def)
    let ?w' = "w3\<lparr>polls := Suc (polls w3)\<rparr>"
    from sc p ra nc
    have rs: "run_stages E mods cfg w =
        (Inr (sc ++ analysis_stats n ++ [''status'' \<mapsto> S ''Completed'']), ?w')"
      by (simp add: run_stages_def final_stats_not_cancelled)
    have a': "articles (db ?w') = mark_all (fst ` set arts - fst ` set new) (articles (db w1))"
      using a3 db2 by simp
    have items: "\<forall>x \<in> set arts. if fst x \<in> fst ` set new then x \<in> set (unanalyzed_articles (db ?w'))
                       else analyzed (db ?w') (fst x)"
    proof
      fix x assume x: "x \<in> set arts"
      show "if fst x \<in> fst ` set new then x \<in> set (unanalyzed_articles (db ?w'))
                       else analyzed (db ?w') (fst x)"
      proof (cases "fst x \<in> fst ` set new")
        case True
        then have "fst x \<notin> fst ` set arts - fst ` set new" by simp
        from mark_all_keeps_unmarked [OF x [unfolded arts] this a'] True show ?thesis by simp
      next
        case False
        with x have j: "fst x \<in> fst ` set arts - fst ` set new" by simp
        from x have "fst x \<in> set (map fst arts)" by simp
        then have "fst x \<in> set (map a_id (articles (db w1)))"
          unfolding arts unanalyzed_ids by auto
        from mark_all_analyzed [OF j this a'] False show ?thesis by simp
      qed
    qed
    have cw: "caught ?w' = caught w1 @ new" using c3 c2 by simp
    have pw: "progress (job ?w') = length arts" using p3 by simp
    have st: "(sc ++ analysis_stats n ++ [''status'' \<mapsto> S ''Completed'']) ''status''
        = Some (S ''Completed'')" by simp
    show ?thesis
      by (intro exI conjI) (rule rs, rule st, rule cw, rule pw, rule items, rule faults, rule ext)
  qed
qed

text \<open>
  Two stored articles; the store fails when the flag of the first one is written, and the
  language model cannot be reached for the second one.
\<close>

theorem item_failure_isolated_witness:
  "cancel_at troubled = None \<and>
   SentimentAnalyzer troubled default_config = Inr openai_analyzer \<and>
   extractor_call_fails troubled ''t2'' \<and>
   analyze_text_for_sentiment troubled openai_analyzer ''t2'' = ([], None) \<and>
   caught (snd (run_stages troubled [zawya] default_config stored)) = [(1, ''database is locked'')] \<and>
   (1, ''t1'') \<in> set (unanalyzed_articles (db (snd (run_stages troubled [zawya] default_config stored)))) \<and>
   (2, ''t2'') \<notin> set (unanalyzed_articles (db (snd (run_stages troubled [zawya] default_config stored)))) \<and>
   progress (job (snd (run_stages troubled [zawya] default_config stored))) = 2"
proof -
  let ?E = "troubled"
  let ?w1 = "snd (run_scraping_pipeline ?E [zawya] stored)"
  let ?wq = "enter_stage Extraction (snd (is_set ?E ?w1))"
  let ?w2 = "snd (get_unanalyzed_articles ?E ?wq)"
  let ?W = "snd (run_stages ?E [zawya] default_config stored)"
  have nc: "cancel_at ?E = None" by (simp add: run_defs outages)
  have "fst (run_scraping_pipeline ?E [zawya] stored) = Inr (scraping_stats 0 0)"
    by (simp add: run_defs outages)
  then have sc: "run_scraping_pipeline ?E [zawya] stored = (Inr (scraping_stats 0 0), ?w1)"
    by (simp add: prod_eq_iff)
  have an: "SentimentAnalyzer ?E default_config = Inr openai_analyzer"
    by (simp add: run_defs outages)
  have "fst (get_unanalyzed_articles ?E ?wq) = Inr [(1, ''t1''), (2, ''t2'')]"
    by (simp add: run_defs outages)
  then have q: "get_unanalyzed_articles ?E ?wq = (Inr [(1, ''t1''), (2, ''t2'')], ?w2)"
    by (simp add: prod_eq_iff)
  have d: "distinct (map a_id (articles (db ?w1)))"
    by (simp add: run_defs outages)
  have c1: "caught ?w1 = []" by (simp add: run_defs outages)
  have cW: "caught ?W = [(1, ''database is locked'')]" by (simp add: run_defs outages)
  have f: "extractor_call_fails ?E ''t2''" by (simp add: run_defs outages)
  from item_failure_isolated [OF nc sc an q d] obtain st w' new where
    rs: "run_stages ?E [zawya] default_config stored = (Inr st, w')"
    and c: "caught w' = caught ?w1 @ new"
    and p: "progress (job w') = length [(1::nat, ''t1''), (2, ''t2'')]"
    and items: "\<forall>x \<in> set [(1::nat, ''t1''), (2, ''t2'')].
        if fst x \<in> fst ` set new then x \<in> set (unanalyzed_articles (db w'))
        else analyzed (db w') (fst x)"
    and ext: "\<forall>x \<in> set [(1::nat, ''t1''), (2, ''t2'')]. extractor_call_fails ?E (snd x) \<longrightarrow>
         analyze_text_for_sentiment ?E openai_analyzer (snd x) = ([], None)"
    by blast
  from rs have w': "w' = ?W" by simp
  from c c1 cW w' have new: "new = [(1, ''database is locked'')]" by simp
  from items new w' have a: "(1, ''t1'') \<in> set (unanalyzed_articles (db ?W))"
    and b: "analyzed (db ?W) 2" by simp_all
  from analyzed_not_selected [OF b] have n2: "(2, ''t2'') \<notin> set (unanalyzed_articles (db ?W))"
    by force
  from ext f have e2: "analyze_text_for_sentiment ?E openai_analyzer ''t2'' = ([], None)"
    by simp
  from nc an f e2 cW a n2 p w' show ?thesis by simp
qed

section \<open>Job controller: cleanup\<close>

text \<open>
  Claim C3. Whatever the environment does (stop request at any poll, store faults at any
  operation, any scrapers, any configuration), the tracker after \<^verbatim>\<open>pipeline_task\<close> and after
  the run body of \<^verbatim>\<open>scheduled_pipeline_run\<close> is the idle one, and the status query reports it.
\<close>

theorem cleanup_resets_job_state:
  "job (snd (pipeline_task E scraper_mods ev cfg w)) =
     \<lparr>is_running = False, status = ''Idle'', progress = 0, total' = 0,
      current_task = ''N/A'', stop_event = None\<rparr> \<and>
   job (snd (scheduled_body E scraper_mods ev w)) =
     \<lparr>is_running = False, status = ''Idle'', progress = 0, total' = 0,
      current_task = ''N/A'', stop_event = None\<rparr> \<and>
   get_pipeline_status (snd (pipeline_task E scraper_mods ev cfg w)) = (False, ''Idle'', 0, 0, ''N/A'') \<and>
   get_pipeline_status (snd (scheduled_body E scraper_mods ev w)) = (False, ''Idle'', 0, 0, ''N/A'')"
  by (simp add: pipeline_task_def pipeline_task_body_def scheduled_body_def guarded_run_def
        get_pipeline_status_def idle_tracker_def split: prod.splits sum.splits)

text \<open>
  A triggered run whose extraction stage raises, and a scheduled run body that is stopped.
\<close>

theorem cleanup_resets_job_state_witness:
  "job (snd (pipeline_task (locked 2) [zawya] 0 default_config initial_world)) = idle_tracker \<and>
   get_pipeline_status (snd (scheduled_body stop_early [zawya, gulfnews] 0 initial_world))
     = (False, ''Idle'', 0, 0, ''N/A'')"
  using cleanup_resets_job_state [of "locked 2" "[zawya]" 0 default_config initial_world]
    cleanup_resets_job_state [of stop_early "[zawya, gulfnews]" 0 default_config initial_world]
  by (simp add: idle_tracker_def)

section \<open>Job controller: the run summary\<close>

text \<open>
  Once set, the stop event stays set. The stages return dictionaries of a fixed shape.
\<close>

lemma cancelled_stays:
  "is_set E w = (True, w') \<Longrightarrow> fst (is_set E w') = True"
  by (auto simp: is_set_def split: option.splits)

lemma scraping_returns:
  "run_scraping_pipeline E ms w = (Inr st, w') \<Longrightarrow> \<exists>n k. st = scraping_stats n k"
  by (auto simp: run_scraping_pipeline_def Let_def
        split: prod.splits sum.splits if_splits bool.splits control.splits)

lemma analysis_returns:
  "run_analysis_pipeline E cfg w = (Inr st, w') \<Longrightarrow> \<exists>m. st = analysis_stats m"
  by (auto simp: run_analysis_pipeline_def Let_def split: prod.splits sum.splits if_splits)

lemma add_pipeline_run_ok:
  "store_fault E (store_ops w) = None \<Longrightarrow>
   pipeline_runs (db (snd (add_pipeline_run E st w))) = pipeline_runs (db w) @
     [\<lparr>r_new_links_found = dict_get st ''new_links_found'' (I 0),
       r_articles_scraped = dict_get st ''articles_scraped'' (I 0),
       r_entities_analyzed = dict_get st ''entities_analyzed'' (I 0),
       r_status = dict_get st ''status'' (S ''Completed'')\<rparr>]
   \<and> fst (add_pipeline_run E st w) = Inr ()"
  by (simp add: add_pipeline_run_def store_call_def Let_def)

lemma guarded_run_normal:
  assumes "store_fault E (store_ops w) = None"
  shows "pipeline_runs (db (snd (guarded_run E (Inr st, w)))) = pipeline_runs (db w) @
     [\<lparr>r_new_links_found = dict_get st ''new_links_found'' (I 0),
       r_articles_scraped = dict_get st ''articles_scraped'' (I 0),
       r_entities_analyzed = dict_get st ''entities_analyzed'' (I 0),
       r_status = dict_get st ''status'' (S ''Completed'')\<rparr>]"
  using add_pipeline_run_ok [OF assms, of st]
  by (cases "add_pipeline_run E st w") (auto simp: guarded_run_def)

lemma guarded_run_failed:
  assumes "store_fault E (store_ops w) = None"
  shows "pipeline_runs (db (snd (guarded_run E (Inl e, w)))) = pipeline_runs (db w) @
     [\<lparr>r_new_links_found = I 0, r_articles_scraped = I 0, r_entities_analyzed = I 0,
       r_status = S (''Failed: '' @ e)\<rparr>]"
  using add_pipeline_run_ok [OF assms, of "failed_stats e"]
  by (cases "add_pipeline_run E (failed_stats e) w")
     (auto simp: guarded_run_def failed_stats_def dict_get_def)

lemma scraping_stats_inj: "scraping_stats n k = scraping_stats n' k' \<Longrightarrow> n = n' \<and> k = k'"
proof -
  assume e: "scraping_stats n k = scraping_stats n' k'"
  from fun_cong [OF e, of "''new_links_found''"] fun_cong [OF e, of "''articles_scraped''"]
  show ?thesis by (simp add: scraping_stats_def)
qed

text \<open>
  Claim C9, as stated, fails: the acquisition stage of this run returns one new link and the
  link is in the store, then the query of the extraction stage raises; the summary that is
  written has zero new links.
\<close>

theorem failed_run_discards_counts:
  "fst (run_scraping_pipeline (locked 2) [zawya] (pipeline_task_enter 0 initial_world))
     = Inr (scraping_stats 1 0) \<and>
   map l_url (links (db (snd (pipeline_task (locked 2) [zawya] 0 default_config initial_world)))) = [''z/1''] \<and>
   pipeline_runs (db (snd (pipeline_task (locked 2) [zawya] 0 default_config initial_world))) =
     [\<lparr>r_new_links_found = I 0, r_articles_scraped = I 0, r_entities_analyzed = I 0,
       r_status = S ''Failed: database is locked''\<rparr>]"
  by (simp add: run_defs more)

text \<open>
  Claim C9, amended. Let the run body end in a world where the store accepts the insert of
  the summary. If the stages raised, the summary has the status "Failed: " followed by the
  error, and zero for the three counts. If they returned (normally or after a stop request),
  the summary has the two counts that the acquisition stage returned, the count that the
  extraction stage returned (zero, with status "Stopped by user", when that stage was
  skipped because the event was set after acquisition), and a status that is "Completed" or
  "Stopped by user".
\<close>

theorem run_summary_contents:
  assumes rs: "run_stages E mods cfg w = (r, w1)"
    and ok: "store_fault E (store_ops w1) = None"
  shows "case r of
           Inl e \<Rightarrow>
             pipeline_runs (db (snd (pipeline_task_body E mods cfg w))) = pipeline_runs (db w1) @
               [\<lparr>r_new_links_found = I 0, r_articles_scraped = I 0, r_entities_analyzed = I 0,
                 r_status = S (''Failed: '' @ e)\<rparr>]
         | Inr st \<Rightarrow>
             (\<exists>n k m s. fst (run_scraping_pipeline E mods w) = Inr (scraping_stats n k) \<and>
                pipeline_runs (db (snd (pipeline_task_body E mods cfg w))) = pipeline_runs (db w1) @
                  [\<lparr>r_new_links_found = I n, r_articles_scraped = I k, r_entities_analyzed = I m,
                    r_status = S s\<rparr>] \<and>
                (s = ''Completed'' \<or> s = ''Stopped by user'') \<and>
                (if fst (is_set E (snd (run_scraping_pipeline E mods w))) then m = 0 \<and> s = ''Stopped by user''
                 else fst (run_analysis_pipeline E cfg (snd (is_set E (snd (run_scraping_pipeline E mods w)))))
                        = Inr (analysis_stats m)))"
proof (cases r)
  case (Inl e)
  with rs guarded_run_failed [OF ok, of e] show ?thesis
    by (simp add: pipeline_task_body_def)
next
  case (Inr st)
  obtain q wa where sc: "run_scraping_pipeline E mods w = (q, wa)" by (metis prod.exhaust)
  with rs Inr obtain sc0 where q: "q = Inr sc0"
    by (cases q) (auto simp: run_stages_def)
  from scraping_returns [OF sc [unfolded q]] obtain n k where sc0: "sc0 = scraping_stats n k" by auto
  obtain b wb where p: "is_set E wa = (b, wb)" by (metis prod.exhaust)
  have body: "pipeline_runs (db (snd (pipeline_task_body E mods cfg w))) = pipeline_runs (db w1) @
     [\<lparr>r_new_links_found = dict_get st ''new_links_found'' (I 0),
       r_articles_scraped = dict_get st ''articles_scraped'' (I 0),
       r_entities_analyzed = dict_get st ''entities_analyzed'' (I 0),
       r_status = dict_get st ''status'' (S ''Completed'')\<rparr>]"
    using rs Inr guarded_run_normal [OF ok, of st] by (simp add: pipeline_task_body_def)
  have fsc: "fst (run_scraping_pipeline E mods w) = Inr (scraping_stats n k)"
    using sc q sc0 by simp
  have snd_sc: "snd (run_scraping_pipeline E mods w) = wa" using sc by simp
  show ?thesis
  proof (cases b)
    case True
    obtain s0 wc where f: "is_set E wb = (s0, wc)" by (metis prod.exhaust)
    from p True have "is_set E wa = (True, wb)" by simp
    from cancelled_stays [OF this] f have "s0" by simp
    with rs Inr sc q sc0 p True f
    have st: "st = scraping_stats n k ++ Map.empty ++ [''status'' \<mapsto> S ''Stopped by user'']"
      by (auto simp: run_stages_def final_stats_def)
    have vals: "dict_get st ''new_links_found'' (I 0) = I n"
      "dict_get st ''articles_scraped'' (I 0) = I k"
      "dict_get st ''entities_analyzed'' (I 0) = I 0"
      "dict_get st ''status'' (S ''Completed'') = S ''Stopped by user''"
      unfolding st by (simp_all add: dict_get_def scraping_stats_def)
    have "fst (run_scraping_pipeline E mods w) = Inr (scraping_stats n k) \<and>
        pipeline_runs (db (snd (pipeline_task_body E mods cfg w))) = pipeline_runs (db w1) @
          [\<lparr>r_new_links_found = I n, r_articles_scraped = I k, r_entities_analyzed = I 0,
            r_status = S ''Stopped by user''\<rparr>] \<and>
        (''Stopped by user'' = ''Completed'' \<or> ''Stopped by user'' = ''Stopped by user'') \<and>
        (if fst (is_set E (snd (run_scraping_pipeline E mods w)))
         then (0::nat) = 0 \<and> ''Stopped by user'' = ''Stopped by user''
         else fst (run_analysis_pipeline E cfg (snd (is_set E (snd (run_scraping_pipeline E mods w)))))
                = Inr (analysis_stats 0))"
      using fsc body vals snd_sc p True by simp
    then show ?thesis unfolding Inr sum.case by blast
  next
    case False
    obtain q2 wc where an: "run_analysis_pipeline E cfg wb = (q2, wc)" by (metis prod.exhaust)
    with rs Inr sc q p False obtain an0 where q2: "q2 = Inr an0"
      by (cases q2) (auto simp: run_stages_def)
    from analysis_returns [OF an [unfolded q2]] obtain m where an0: "an0 = analysis_stats m" by auto
    obtain s0 wd where f: "is_set E wc = (s0, wd)" by (metis prod.exhaust)
    let ?s = "if s0 then ''Stopped by user'' else ''Completed''"
    from rs Inr sc q sc0 p False an q2 an0 f
    have st: "st = scraping_stats n k ++ analysis_stats m ++ [''status'' \<mapsto> S ?s]"
      by (auto simp: run_stages_def final_stats_def)
    have vals: "dict_get st ''new_links_found'' (I 0) = I n"
      "dict_get st ''articles_scraped'' (I 0) = I k"
      "dict_get st ''entities_analyzed'' (I 0) = I m"
      "dict_get st ''status'' (S ''Completed'') = S ?s"
      unfolding st by (simp_all add: dict_get_def scraping_stats_def analysis_stats_def map_add_def)
    have "fst (run_scraping_pipeline E mods w) = Inr (scraping_stats n k) \<and>
        pipeline_runs (db (snd (pipeline_task_body E mods cfg w))) = pipeline_runs (db w1) @
          [\<lparr>r_new_links_found = I n, r_articles_scraped = I k, r_entities_analyzed = I m,
            r_status = S ?s\<rparr>] \<and>
        (?s = ''Completed'' \<or> ?s = ''Stopped by user'') \<and>
        (if fst (is_set E (snd (run_scraping_pipeline E mods w)))
         then m = 0 \<and> ?s = ''Stopped by user''
         else fst (run_analysis_pipeline E cfg (snd (is_set E (snd (run_scraping_pipeline E mods w)))))
                = Inr (analysis_stats m))"
      using fsc body vals snd_sc p False an q2 an0 by simp
    then show ?thesis unfolding Inr sum.case by blast
  qed
qed

text \<open>
  A run whose extraction stage raises, and a run stopped while the first scraper is at work.
\<close>

theorem run_summary_contents_witness:
  "fst (run_stages (locked 2) [zawya] default_config (pipeline_task_enter 0 initial_world))
     = Inl ''database is locked'' \<and>
   pipeline_runs (db (snd (pipeline_task_body (locked 2) [zawya] default_config
       (pipeline_task_enter 0 initial_world)))) =
     [\<lparr>r_new_links_found = I 0, r_articles_scraped = I 0, r_entities_analyzed = I 0,
       r_status = S ''Failed: database is locked''\<rparr>] \<and>
   fst (run_scraping_pipeline stop_early [zawya, gulfnews] (pipeline_task_enter 0 initial_world))
     = Inr (scraping_stats 1 0) \<and>
   pipeline_runs (db (snd (pipeline_task_body stop_early [zawya, gulfnews] default_config
       (pipeline_task_enter 0 initial_world)))) =
     [\<lparr>r_new_links_found = I 1, r_articles_scraped = I 0, r_entities_analyzed = I 0,
       r_status = S ''Stopped by user''\<rparr>]"
proof -
  let ?w = "pipeline_task_enter 0 initial_world"
  let ?w1 = "snd (run_stages (locked 2) [zawya] default_config ?w)"
  have r: "fst (run_stages (locked 2) [zawya] default_config ?w) = Inl ''database is locked''"
    by (simp add: run_defs more)
  then have rs: "run_stages (locked 2) [zawya] default_config ?w = (Inl ''database is locked'', ?w1)"
    by (simp add: prod_eq_iff)
  have ok: "store_fault (locked 2) (store_ops ?w1) = None"
    by (simp add: run_defs more)
  have e: "pipeline_runs (db ?w1) = []"
    by (simp add: run_defs more)
  from run_summary_contents [OF rs ok] r e
  have failed: "pipeline_runs (db (snd (pipeline_task_body (locked 2) [zawya] default_config ?w))) =
     [\<lparr>r_new_links_found = I 0, r_articles_scraped = I 0, r_entities_analyzed = I 0,
       r_status = S ''Failed: database is locked''\<rparr>]"
    by simp
  let ?r = "fst (run_stages stop_early [zawya, gulfnews] default_config ?w)"
  let ?w2 = "snd (run_stages stop_early [zawya, gulfnews] default_config ?w)"
  have rs2: "run_stages stop_early [zawya, gulfnews] default_config ?w = (?r, ?w2)" by simp
  have ok2: "store_fault stop_early (store_ops ?w2) = None" by (simp add: run_defs more)
  have e2: "pipeline_runs (db ?w2) = []" by (simp add: run_defs more)
  have sc: "fst (run_scraping_pipeline stop_early [zawya, gulfnews] ?w) = Inr (scraping_stats 1 0)"
    by (simp add: run_defs more)
  have stop: "fst (is_set stop_early (snd (run_scraping_pipeline stop_early [zawya, gulfnews] ?w)))"
    by (simp add: run_defs more)
  have "\<exists>st. ?r = Inr st" by (simp add: run_defs more)
  then obtain st where r2: "?r = Inr st" ..
  from run_summary_contents [OF rs2 ok2] r2 obtain n k m s where
    a: "fst (run_scraping_pipeline stop_early [zawya, gulfnews] ?w) = Inr (scraping_stats n k)"
    and b: "pipeline_runs (db (snd (pipeline_task_body stop_early [zawya, gulfnews] default_config ?w))) =
      pipeline_runs (db ?w2) @
      [\<lparr>r_new_links_found = I n, r_articles_scraped = I k, r_entities_analyzed = I m, r_status = S s\<rparr>]"
    and c: "if fst (is_set stop_early (snd (run_scraping_pipeline stop_early [zawya, gulfnews] ?w)))
       then m = 0 \<and> s = ''Stopped by user''
       else fst (run_analysis_pipeline stop_early default_config
                  (snd (is_set stop_early (snd (run_scraping_pipeline stop_early [zawya, gulfnews] ?w)))))
              = Inr (analysis_stats m)"
    by auto
  from a sc have "scraping_stats n k = scraping_stats 1 0" by simp
  from scraping_stats_inj [OF this] have nk: "n = 1" "k = 0" by simp_all
  from c stop have ms: "m = 0" "s = ''Stopped by user''" by simp_all
  from b e2 nk ms
  have cancelled: "pipeline_runs (db (snd (pipeline_task_body stop_early [zawya, gulfnews]
       default_config ?w))) =
     [\<lparr>r_new_links_found = I 1, r_articles_scraped = I 0, r_entities_analyzed = I 0,
       r_status = S ''Stopped by user''\<rparr>]"
    by simp
  from r failed sc cancelled show ?thesis by simp
qed

section \<open>Job controller: cancellation during acquisition\<close>

text \<open>
  The triggered run does what the claim says: when the event is set as the acquisition stage
  returns, the extraction stage is not entered and the status is "Stopped by user".
\<close>

lemma final_stats_history: "final_stats E sc an w = (st, w') \<Longrightarrow> history w' = history w"
  by (auto simp: final_stats_def is_set_def split: prod.splits)

lemma manual_cancel_skips_extraction:
  assumes sc: "run_scraping_pipeline E mods w = (Inr sc, w1)" and stop: "fst (is_set E w1)"
  shows "history (snd (run_stages E mods cfg w)) = history w1 \<and>
    (\<exists>st. fst (run_stages E mods cfg w) = Inr st \<and> st ''status'' = Some (S ''Stopped by user''))"
proof -
  obtain w2 where p: "is_set E w1 = (True, w2)" using stop by (cases "is_set E w1") auto
  then have h2: "history w2 = history w1" by (auto simp: is_set_def)
  obtain s0 w3 where f: "is_set E w2 = (s0, w3)" by (metis prod.exhaust)
  from cancelled_stays [OF p] f have s0 by simp
  from f have h3: "history w3 = history w2" by (auto simp: is_set_def)
  from sc p f \<open>s0\<close> have "run_stages E mods cfg w =
      (Inr (sc ++ Map.empty ++ [''status'' \<mapsto> S ''Stopped by user'']), w3)"
    by (simp add: run_stages_def final_stats_def)
  with h2 h3 show ?thesis by simp
qed

text \<open>
  Claim C2 fails on the scheduled path. The stop event is set while the first scraper is at
  work: the acquisition stage stops before the second scraper and the event is set when it
  returns; \<^verbatim>\<open>scheduled_pipeline_run\<close> enters the extraction stage all the same and records
  the status "Completed".
\<close>

theorem scheduled_run_ignores_cancellation:
  "fst (is_set stop_early (snd (run_scraping_pipeline stop_early [zawya, gulfnews]
          (pipeline_task_enter 0 (snd (get_scraper_modules scrapers_folder None initial_world)))))) \<and>
   history (snd (scheduled_pipeline_run stop_early 0 initial_world)) = [Acquisition, Extraction] \<and>
   map r_status (pipeline_runs (db (snd (scheduled_pipeline_run stop_early 0 initial_world))))
     = [S ''Completed'']"
  by (simp add: run_defs more)

section \<open>Scraper registry\<close>

lemma select_modules_concat:
  "select_modules all_scrapers names =
     concat (map (\<lambda>name. case map_of all_scrapers name of Some m \<Rightarrow> [m] | None \<Rightarrow> []) names)"
  by (induction names) (simp_all split: option.splits)

lemma discovery: "discover_scrapers scrapers_folder initial_world =
    (Inr [(''zawya.com'', zawya), (''gulfnews.com'', gulfnews)],
     initial_world\<lparr>scans := 1, scraper_cache := [(''zawya.com'', zawya), (''gulfnews.com'', gulfnews)]\<rparr>)"
  by (simp add: registry_defs scrapers_folder_def importer_def initial_world_def zawya_def gulfnews_def)

text \<open>
  Claim C7. When discovery yields a registry, \<^verbatim>\<open>get_scraper_modules\<close> without a list of
  names returns every module of the registry, and with a list of names it returns, for each
  name in the order requested, the module registered under it, and nothing for a name that
  is not registered: possibly fewer modules than names, and no error.
\<close>

theorem get_scraper_modules_resolves:
  assumes "discover_scrapers fs w = (Inr all_scrapers, w1)"
  shows "get_scraper_modules fs None w = (Inr (map snd all_scrapers), w1) \<and>
         get_scraper_modules fs (Some names) w =
           (Inr (concat (map (\<lambda>name. case map_of all_scrapers name of Some m \<Rightarrow> [m] | None \<Rightarrow> [])
                          names)), w1) \<and>
         length (select_modules all_scrapers names) \<le> length names"
proof -
  have "length (select_modules all_scrapers names) \<le> length names"
    by (induction names) (auto split: option.splits)
  with assms show ?thesis
    by (simp add: get_scraper_modules_def select_modules_concat)
qed

text \<open>
  The sample directory, all modules and a selection with an unknown name.
\<close>

theorem get_scraper_modules_resolves_witness:
  "get_scraper_modules scrapers_folder None initial_world =
     (Inr [zawya, gulfnews],
      initial_world\<lparr>scans := 1, scraper_cache := [(''zawya.com'', zawya), (''gulfnews.com'', gulfnews)]\<rparr>) \<and>
   get_scraper_modules scrapers_folder (Some [''gulfnews.com'', ''cnn.com'', ''zawya.com'']) initial_world =
     (Inr [gulfnews, zawya],
      initial_world\<lparr>scans := 1, scraper_cache := [(''zawya.com'', zawya), (''gulfnews.com'', gulfnews)]\<rparr>)"
  using get_scraper_modules_resolves [OF discovery, of "[''gulfnews.com'', ''cnn.com'', ''zawya.com'']"]
  by simp

text \<open>
  A registry that is not empty is cached: the next call returns it without a scan, whatever
  the directory holds by then.
\<close>

lemma discover_memoized:
  assumes "discover_scrapers fs w = (Inr all_scrapers, w1)" and "all_scrapers \<noteq> []"
  shows "discover_scrapers fs' w1 = (Inr all_scrapers, w1)"
  using assms by (auto simp: discover_scrapers_def Let_def split: if_splits sum.splits)

text \<open>
  Claim C8 fails when discovery finds no valid scraper: \<^verbatim>\<open>if _scraper_cache:\<close> takes the
  empty dictionary for a cache that was never filled. With every import failing, the first
  call returns the empty registry after one scan, a second call scans again, and a call made
  once the imports succeed returns a different registry.
\<close>

theorem empty_registry_rescanned:
  "fst (discover_scrapers broken_folder initial_world) = Inr [] \<and>
   scans (snd (discover_scrapers broken_folder initial_world)) = 1 \<and>
   scans (snd (discover_scrapers broken_folder (snd (discover_scrapers broken_folder initial_world)))) = 2 \<and>
   fst (discover_scrapers scrapers_folder (snd (discover_scrapers broken_folder initial_world)))
     = Inr [(''zawya.com'', zawya), (''gulfnews.com'', gulfnews)]"
  by (simp add: registry_defs broken_folder_def missing_dependency_def scrapers_folder_def importer_def
        initial_world_def zawya_def gulfnews_def Let_def)

section \<open>Trigger handler\<close>

lemma select_unknown: "\<forall>n \<in> set names. map_of all_scrapers n = None \<Longrightarrow> select_modules all_scrapers names = []"
  by (induction names) auto

text \<open>
  Claim C10. When no run is active and every requested name is unknown to the registry, the
  trigger handler answers 400, starts no thread and leaves the tracker as it was.
\<close>

theorem unknown_scrapers_rejected:
  assumes "\<not> is_running (job (sys_world s))"
    and "discover_scrapers (scrapers_dir E) (sys_world s) = (Inr all_scrapers, w1)"
    and "req_scrapers req = Some names"
    and "\<forall>n \<in> set names. map_of all_scrapers n = None"
  shows "fst (trigger_pipeline E req s) = (400, ''No valid scrapers found for the given selection.'') \<and>
         threads (snd (trigger_pipeline E req s)) = threads s \<and>
         job (sys_world (snd (trigger_pipeline E req s))) = job (sys_world s)"
  using assms discover_scrapers_db [OF assms(2)] select_unknown [OF assms(4)]
  by (simp add: trigger_pipeline_def get_scraper_modules_def)

text \<open>
  A request for two sources that the sample directory does not have.
\<close>

theorem unknown_scrapers_rejected_witness:
  "fst (trigger_pipeline calm (everything\<lparr>req_scrapers := Some [''cnn.com'', ''bbc.com'']\<rparr>) at_start)
     = (400, ''No valid scrapers found for the given selection.'') \<and>
   threads (snd (trigger_pipeline calm (everything\<lparr>req_scrapers := Some [''cnn.com'', ''bbc.com'']\<rparr>) at_start)) = [] \<and>
   job (sys_world (snd (trigger_pipeline calm (everything\<lparr>req_scrapers := Some [''cnn.com'', ''bbc.com'']\<rparr>) at_start)))
     = idle_tracker"
proof -
  have 1: "\<not> is_running (job (sys_world at_start))"
    by (simp add: at_start_def initial_world_def idle_tracker_def)
  have 2: "discover_scrapers (scrapers_dir calm) (sys_world at_start) =
    (Inr [(''zawya.com'', zawya), (''gulfnews.com'', gulfnews)],
     initial_world\<lparr>scans := 1, scraper_cache := [(''zawya.com'', zawya), (''gulfnews.com'', gulfnews)]\<rparr>)"
    using discovery by (simp add: calm_def at_start_def)
  have 3: "req_scrapers (everything\<lparr>req_scrapers := Some [''cnn.com'', ''bbc.com'']\<rparr>) = Some [''cnn.com'', ''bbc.com'']"
    by simp
  have 4: "\<forall>n \<in> set [''cnn.com'', ''bbc.com'']. map_of [(''zawya.com'', zawya), (''gulfnews.com'', gulfnews)] n = None"
    by simp
  from unknown_scrapers_rejected [OF 1 2 3 4] show ?thesis
    by (simp add: at_start_def initial_world_def)
qed

text \<open>
  A trigger that finds \<^verbatim>\<open>is_running\<close> set is answered with 409 and changes nothing; a trigger
  is accepted only when it finds \<^verbatim>\<open>is_running\<close> unset.
\<close>

lemma trigger_conflict:
  "is_running (job (sys_world s)) \<Longrightarrow>
     trigger_pipeline E req s = ((409, ''A pipeline is already running.''), s)"
  by (simp add: trigger_pipeline_def)

lemma trigger_admitted_only_idle:
  "fst (fst (trigger_pipeline E req s)) = 202 \<Longrightarrow> \<not> is_running (job (sys_world s))"
  by (auto simp: trigger_pipeline_def split: if_splits prod.splits sum.splits)

text \<open>
  Claim C1 fails: the handler reads \<^verbatim>\<open>is_running\<close> but leaves the write to the thread it
  starts. Two trigger requests handled before the first thread has run its first statement
  are both answered with 202, and once both threads have begun, two runs are active.
\<close>

theorem trigger_race_admits_two_runs:
  "map fst (fst (run_events calm [Trigger everything, Trigger everything, Begin 0, Begin 1] at_start))
     = [202, 202] \<and>
   active_runs (snd (run_events calm [Trigger everything, Trigger everything, Begin 0, Begin 1] at_start)) = 2"
  by (simp add: run_defs)

section \<open>Acquisition stage: running it twice\<close>

text \<open>
  \<^verbatim>\<open>add_link\<close> returns a row id, which counts as true, exactly when the url was absent, and
  then it has appended one row.
\<close>

lemma add_link_new_row:
  assumes "store_fault E (store_ops w) = None"
  shows "(u \<in> set (map l_url (links (db w))) \<longrightarrow>
            fst (add_link E u src w) = Inr None \<and> links (db (snd (add_link E u src w))) = links (db w)) \<and>
         (u \<notin> set (map l_url (links (db w))) \<longrightarrow>
            (\<exists>i. fst (add_link E u src w) = Inr (Some i) \<and> truthy_id (Some i) \<and>
                 links (db (snd (add_link E u src w))) =
                   links (db w) @ [\<lparr>l_id = i, l_url = u, l_source_website = src\<rparr>]))"
  using assms by (simp add: add_link_def store_call_def Let_def truthy_id_def next_id_def)

text \<open>
  Claim C4 fails on the count of content items. The scraper returns two addresses of one
  article. The first run reports two new links and two scraped articles but stores one
  article, since the second insert violates the uniqueness of the url; the second run, on
  the same scraper output, finds no new link, fetches the second address again, stores
  nothing and reports one scraped article.
\<close>

theorem rerun_counts_rejected_article:
  "fst (run_scraping_pipeline calm [gulfnews] initial_world) = Inr (scraping_stats 2 2) \<and>
   fst (run_scraping_pipeline calm [gulfnews] (snd (run_scraping_pipeline calm [gulfnews] initial_world)))
     = Inr (scraping_stats 0 1) \<and>
   map a_url (articles (db (snd (run_scraping_pipeline calm [gulfnews] initial_world)))) = [''g/a''] \<and>
   map a_url (articles (db (snd (run_scraping_pipeline calm [gulfnews]
       (snd (run_scraping_pipeline calm [gulfnews] initial_world)))))) = [''g/a'']"
  by (simp add: run_defs numeral_2_eq_2)

end
